theory Spec2Isabelle
  imports Main "HOL-Library.AList"
begin

section \<open>JavaScript strings, arrays and numbers\<close>

text \<open>
  The source is \<^verbatim>\<open>src/lib/WireGuard.js\<close>. Strings are character lists. The few
  built-in operations the class uses are written out: \<^verbatim>\<open>split\<close> on a one-character
  separator, \<^verbatim>\<open>join\<close>, assignment to an array index (which extends a short
  array with holes, joined as empty strings), \<^verbatim>\<open>trim\<close> (on the ASCII white
  space), \<^verbatim>\<open>includes\<close>, and the decimal rendering of a number.
\<close>

definition NL :: string where
  "NL = [CHR 0x0A]"

definition TAB :: char where
  "TAB = CHR 0x09"

fun js_split :: "char \<Rightarrow> string \<Rightarrow> string list" where
  "js_split sep [] = [[]]"
| "js_split sep (c # cs) =
     (if c = sep then [] # js_split sep cs
      else (case js_split sep cs of [] \<Rightarrow> [[c]] | w # ws \<Rightarrow> (c # w) # ws))"

fun js_join :: "string \<Rightarrow> string list \<Rightarrow> string" where
  "js_join sep [] = []"
| "js_join sep [x] = x"
| "js_join sep (x # y # ys) = x @ sep @ js_join sep (y # ys)"

definition js_set_index :: "string list \<Rightarrow> nat \<Rightarrow> string \<Rightarrow> string list" where
  "js_set_index xs i v =
     (if i < length xs then xs[i := v] else xs @ replicate (i - length xs) [] @ [v])"

definition is_space :: "char \<Rightarrow> bool" where
  "is_space c = (c \<in> set [CHR 0x09, CHR 0x0A, CHR 0x0B, CHR 0x0C, CHR 0x0D, CHR 0x20])"

definition js_trim :: "string \<Rightarrow> string" where
  "js_trim s = rev (dropWhile is_space (rev (dropWhile is_space s)))"

fun js_includes :: "string \<Rightarrow> string \<Rightarrow> bool" where
  "js_includes [] p = (p = [])"
| "js_includes (c # cs) p = (take (length p) (c # cs) = p \<or> js_includes cs p)"

definition digit_char :: "nat \<Rightarrow> char" where
  "digit_char d = ''0123456789'' ! d"

fun String_of_nat :: "nat \<Rightarrow> string" where
  "String_of_nat n =
     (if n < 10 then [digit_char n] else String_of_nat (n div 10) @ [digit_char (n mod 10)])"

declare String_of_nat.simps [simp del]

definition is_digit :: "char \<Rightarrow> bool" where
  "is_digit c = (c \<in> set ''0123456789'')"

definition digit_value :: "char \<Rightarrow> nat" where
  "digit_value c = of_char c - 48"

definition decimal_value :: "string \<Rightarrow> nat" where
  "decimal_value s = foldl (\<lambda>n c. 10 * n + digit_value c) 0 s"

definition all_digits :: "string \<Rightarrow> bool" where
  "all_digits s = list_all is_digit s"

text \<open>
  \<^verbatim>\<open>Number(s)\<close> parses into an IEEE double. On a string of decimal digits whose value
  is at most \<open>2^53\<close> the double is that integer exactly (the empty string gives 0), and
  \<open>Num\<close> holds it. On every other string the double is left unevaluated as
  \<open>NumberOf s\<close>. \<^verbatim>\<open>Number(undefined)\<close> is \<open>NaN\<close>.
\<close>

datatype jsnumber = Num nat | NaN | NumberOf string

definition js_Number :: "string option \<Rightarrow> jsnumber" where
  "js_Number v =
     (case v of
        None \<Rightarrow> NaN
      | Some s \<Rightarrow>
          if all_digits s \<and> decimal_value s \<le> 2 ^ 53 then Num (decimal_value s)
          else NumberOf s)"

text \<open>
  A \<^verbatim>\<open>Date\<close> holds a time value in milliseconds since the epoch, at most
  8.64e15 in absolute value, or is invalid. A digit string above \<open>2^53\<close> rounds to a
  double that is at least \<open>2^53\<close>, beyond the range, so its date is invalid; the date of
  any other unevaluated number stays unevaluated as \<open>DateOfNumber s\<close>.
\<close>

datatype jsdate = DateMs int | InvalidDate | DateOfNumber string

definition new_Date :: "jsnumber \<Rightarrow> jsdate" where
  "new_Date x =
     (case x of
        Num n \<Rightarrow> if n \<le> 8640000000000000 then DateMs (int n) else InvalidDate
      | NaN \<Rightarrow> InvalidDate
      | NumberOf s \<Rightarrow> if all_digits s then InvalidDate else DateOfNumber s)"

text \<open>Template interpolation \<^verbatim>\<open>${v}\<close> of a value that may be undefined.\<close>

definition tpl :: "string option \<Rightarrow> string" where
  "tpl v = (case v of None \<Rightarrow> ''undefined'' | Some s \<Rightarrow> s)"

text \<open>Truthiness of a string that may be undefined: the empty string is falsy too.\<close>

definition truthy :: "string option \<Rightarrow> bool" where
  "truthy v = (case v of None \<Rightarrow> False | Some s \<Rightarrow> s \<noteq> [])"

definition nth_opt :: "'a list \<Rightarrow> nat \<Rightarrow> 'a option" where
  "nth_opt xs i = (if i < length xs then Some (xs ! i) else None)"

section \<open>Data model\<close>

text \<open>
  The persisted document is \<^verbatim>\<open>{ server: {...}, clients: { [id]: client } }\<close>. An
  optional property is an \<open>option\<close>; \<open>None\<close> is a property that is absent. The
  clients object keeps its keys in insertion order (the keys are UUIDs, never array
  indices), so it is an association list. Timestamps are instants in milliseconds.
\<close>

record server_data =
  srv_privateKey :: string
  srv_publicKey :: string
  srv_address :: string
  srv_cidrSubnet :: "string option"

record client =
  client_id :: "string option"
  name :: string
  address :: string
  privateKey :: "string option"
  publicKey :: string
  preSharedKey :: "string option"
  createdAt :: int
  updatedAt :: int
  enabled :: bool
  allowedIPs :: "string option"
  cidrSubnet :: "string option"

record wg_config =
  server :: server_data
  clients :: "(string \<times> client) list"

text \<open>The entries \<^verbatim>\<open>getClients\<close> returns.\<close>

record listed_client =
  l_id :: string
  l_name :: string
  l_enabled :: bool
  l_address :: string
  l_publicKey :: string
  l_createdAt :: int
  l_updatedAt :: int
  l_allowedIPs :: "string option"
  downloadableConfig :: bool
  persistentKeepalive :: "string option"
  latestHandshakeAt :: "jsdate option"
  transferRx :: "jsnumber option"
  transferTx :: "jsnumber option"

text \<open>
  The constants of \<^verbatim>\<open>../config\<close>, which is not among the sources, are parameters.
  Each holds the text its interpolation gives; the empty string is a value that is
  unset (falsy). \<^verbatim>\<open>Util.isValidIPv4\<close> is not among the sources either and is a
  parameter too.
\<close>

record settings =
  WG_PATH :: string
  WG_HOST :: string
  WG_PORT :: string
  WG_CONFIG_PORT :: string
  WG_MTU :: string
  WG_DEFAULT_DNS :: string
  WG_DEFAULT_ADDRESS :: string
  WG_PERSISTENT_KEEPALIVE :: string
  WG_ALLOWED_IPS :: string
  WG_PRE_UP :: string
  WG_POST_UP :: string
  WG_PRE_DOWN :: string
  WG_POST_DOWN :: string
  isValidIPv4 :: "string \<Rightarrow> bool"

text \<open>
  \<open>ServerError\<close> carries a message and a status code; a plain \<open>Error\<close> carries a
  message only. \<open>TypeError\<close> and \<open>ReferenceError\<close> are the engine's own.
\<close>

datatype error =
    Error string
  | ServerError string nat
  | TypeError
  | ReferenceError

fun message :: "error \<Rightarrow> string option" where
  "message (Error m) = Some m"
| "message (ServerError m s) = Some m"
| "message TypeError = None"
| "message ReferenceError = None"

fun statusCode :: "error \<Rightarrow> nat option" where
  "statusCode (ServerError m s) = Some s"
| "statusCode (Error m) = None"
| "statusCode TypeError = None"
| "statusCode ReferenceError = None"

section \<open>The world outside, and the instance\<close>

text \<open>
  What the file system, the daemon's commands, the clock and the UUID source answer
  during one call is a parameter of the call. What the call does to them is appended
  to a trace. \<open>builtin_property\<close> is what a property of a built-in object reads as.
\<close>

datatype content = Json wg_config | Text string

datatype effect =
    ReadFile string string
  | WriteFile string string content nat
  | Exec string
  | AssignBuiltin string string

record outcomes =
  readFile_result :: "wg_config option"
  writeFile_result :: "string \<Rightarrow> string option"
  exec_result :: "string \<Rightarrow> string + string"
  Date_now :: "nat \<Rightarrow> int"
  randomUUID :: string
  builtin_property :: "string \<Rightarrow> string \<Rightarrow> string option"

text \<open>
  The instance holds \<^verbatim>\<open>__configPromise\<close>: unset, or settled with the configuration
  object or with the error the load failed with. The configuration object is shared
  and mutated in place, so a mutation replaces the value held here.
\<close>

record wireguard =
  configPromise :: "(error + wg_config) option"
  trace :: "effect list"

type_synonym 'a io = "wireguard \<Rightarrow> (error + 'a) \<times> wireguard"

definition return :: "'a \<Rightarrow> 'a io" where
  "return x = (\<lambda>w. (Inr x, w))"

definition throw :: "error \<Rightarrow> 'a io" where
  "throw e = (\<lambda>w. (Inl e, w))"

definition bind :: "'a io \<Rightarrow> ('a \<Rightarrow> 'b io) \<Rightarrow> 'b io" where
  "bind m f = (\<lambda>w. case m w of (Inl e, w') \<Rightarrow> (Inl e, w') | (Inr x, w') \<Rightarrow> f x w')"

definition catch :: "'a io \<Rightarrow> (error \<Rightarrow> 'a io) \<Rightarrow> 'a io" where
  "catch m h = (\<lambda>w. case m w of (Inl e, w') \<Rightarrow> h e w' | (Inr x, w') \<Rightarrow> (Inr x, w'))"

definition emit :: "effect \<Rightarrow> wireguard \<Rightarrow> wireguard" where
  "emit e w = w\<lparr>trace := trace w @ [e]\<rparr>"

definition Util_exec :: "outcomes \<Rightarrow> string \<Rightarrow> string io" where
  "Util_exec out cmd =
     (\<lambda>w. (case exec_result out cmd of Inl m \<Rightarrow> Inl (Error m) | Inr s \<Rightarrow> Inr s,
           emit (Exec cmd) w))"

definition fs_writeFile :: "outcomes \<Rightarrow> string \<Rightarrow> string \<Rightarrow> content \<Rightarrow> nat \<Rightarrow> unit io" where
  "fs_writeFile out dir file c mode =
     (\<lambda>w. case writeFile_result out file of
            Some m \<Rightarrow> (Inl (Error m), w)
          | None \<Rightarrow> (Inr (), emit (WriteFile dir file c mode) w))"

text \<open>\<^verbatim>\<open>fs.readFile\<close> followed by \<^verbatim>\<open>JSON.parse\<close>: either may fail.\<close>

definition readFile_JSON :: "outcomes \<Rightarrow> string \<Rightarrow> string \<Rightarrow> wg_config io" where
  "readFile_JSON out dir file =
     (\<lambda>w. (case readFile_result out of
             None \<Rightarrow> Inl (Error ''read or parse failure'')
           | Some c \<Rightarrow> Inr c,
           emit (ReadFile dir file) w))"

section \<open>Loading, persisting and syncing\<close>

text \<open>The interface section of the daemon configuration (\<^verbatim>\<open>__saveConfig\<close>).\<close>

definition interface_text :: "settings \<Rightarrow> wg_config \<Rightarrow> string" where
  "interface_text env config =
     NL @ ''# Note: Do not edit this file directly.'' @ NL @
     ''# Your changes will be overwritten!'' @ NL @
     NL @
     ''# Server'' @ NL @
     ''[Interface]'' @ NL @
     ''PrivateKey = '' @ srv_privateKey (server config) @ NL @
     ''Address = '' @ srv_address (server config) @ ''/'' @ tpl (srv_cidrSubnet (server config)) @ NL @
     ''ListenPort = '' @ WG_PORT env @ NL @
     ''PreUp = '' @ WG_PRE_UP env @ NL @
     ''PostUp = '' @ WG_POST_UP env @ NL @
     ''PreDown = '' @ WG_PRE_DOWN env @ NL @
     ''PostDown = '' @ WG_POST_DOWN env @ NL"

definition peer_text :: "string \<Rightarrow> client \<Rightarrow> string" where
  "peer_text clientId client =
     NL @ NL @
     ''# Client: '' @ name client @ '' ('' @ clientId @ '')'' @ NL @
     ''[Peer]'' @ NL @
     ''PublicKey = '' @ publicKey client @ NL @
     (if truthy (preSharedKey client) then ''PresharedKey = '' @ tpl (preSharedKey client) @ NL
      else []) @
     ''AllowedIPs = '' @ address client @ ''/32''"

text \<open>The loop over \<^verbatim>\<open>Object.entries(config.clients)\<close>, with its \<^verbatim>\<open>continue\<close>.\<close>

fun saveConfig_loop :: "(string \<times> client) list \<Rightarrow> string \<Rightarrow> string" where
  "saveConfig_loop [] result = result"
| "saveConfig_loop ((clientId, client) # rest) result =
     (if \<not> enabled client then saveConfig_loop rest result
      else saveConfig_loop rest (result @ peer_text clientId client))"

definition saveConfig_text :: "settings \<Rightarrow> wg_config \<Rightarrow> string" where
  "saveConfig_text env config = saveConfig_loop (clients config) (interface_text env config)"

definition private_saveConfig :: "settings \<Rightarrow> outcomes \<Rightarrow> wg_config \<Rightarrow> unit io" where
  "private_saveConfig env out config =
     (let result = saveConfig_text env config in
      bind (fs_writeFile out (WG_PATH env) ''wg0.json'' (Json config) 432) (\<lambda>_.
      fs_writeFile out (WG_PATH env) ''wg0.conf'' (Text result) 384))"

definition private_syncConfig :: "outcomes \<Rightarrow> unit io" where
  "private_syncConfig out =
     bind (Util_exec out ''wg syncconf wg0 <(wg-quick strip wg0)'') (\<lambda>_. return ())"

text \<open>
  The \<^verbatim>\<open>catch\<close> branch of \<^verbatim>\<open>getConfig\<close>. The subnet width \<open>subnetIp\<close> is bound to
  the local \<open>cidrSubnet\<close> and not stored: the server record has the three properties
  \<^verbatim>\<open>privateKey\<close>, \<^verbatim>\<open>publicKey\<close> and \<^verbatim>\<open>address\<close>.
\<close>

definition bootstrap :: "settings \<Rightarrow> outcomes \<Rightarrow> wg_config io" where
  "bootstrap env out =
     bind (Util_exec out ''wg genkey'') (\<lambda>privateKey.
     bind (Util_exec out (''echo '' @ privateKey @ '' | wg pubkey'')) (\<lambda>publicKey.
       let parts = js_split (CHR ''/'') (WG_DEFAULT_ADDRESS env);
           ipAddress = hd parts;
           subnetIp = nth_opt parts 1;
           tempAddress = js_set_index (js_split (CHR ''.'') ipAddress) 3 ''1'';
           address = js_join ''.'' tempAddress;
           cidrSubnet = subnetIp
       in return \<lparr>server = \<lparr>srv_privateKey = privateKey, srv_publicKey = publicKey,
                              srv_address = address, srv_cidrSubnet = None\<rparr>,
                   clients = []\<rparr>))"

definition device_not_found :: string where
  \<open>device_not_found = ''Cannot find device "wg0"''\<close>

definition loadConfig :: "settings \<Rightarrow> outcomes \<Rightarrow> wg_config io" where
  "loadConfig env out =
     (if WG_HOST env = [] then throw (Error ''WG_HOST Environment Variable Not Set!'')
      else
        bind (catch (readFile_JSON out (WG_PATH env) ''wg0.json'') (\<lambda>err. bootstrap env out))
          (\<lambda>config.
        bind (private_saveConfig env out config) (\<lambda>_.
        bind (catch (Util_exec out ''wg-quick down wg0'') (\<lambda>err. return [])) (\<lambda>_.
        bind (catch (Util_exec out ''wg-quick up wg0'') (\<lambda>err.
                if (case message err of None \<Rightarrow> False
                    | Some m \<Rightarrow> m \<noteq> [] \<and> js_includes m device_not_found)
                then throw (Error (''WireGuard exited with the error: '' @ device_not_found @ NL @
                       ''This usually means that your host's kernel does not support WireGuard!''))
                else throw err)) (\<lambda>_.
        bind (private_syncConfig out) (\<lambda>_.
        return config))))))"

text \<open>
  \<^verbatim>\<open>getConfig\<close>: the promise is stored on the first call, whatever it settles with,
  and returned as it is by every later call.
\<close>

definition getConfig :: "settings \<Rightarrow> outcomes \<Rightarrow> wg_config io" where
  "getConfig env out =
     (\<lambda>w. case configPromise w of
            Some r \<Rightarrow> (r, w)
          | None \<Rightarrow> (case loadConfig env out w of (r, w') \<Rightarrow> (r, w'\<lparr>configPromise := Some r\<rparr>)))"

definition saveConfig :: "settings \<Rightarrow> outcomes \<Rightarrow> unit io" where
  "saveConfig env out =
     bind (getConfig env out) (\<lambda>config.
     bind (private_saveConfig env out config) (\<lambda>_.
     private_syncConfig out))"

text \<open>A mutation of the shared configuration object.\<close>

definition modify_config :: "(wg_config \<Rightarrow> wg_config) \<Rightarrow> unit io" where
  "modify_config f = (\<lambda>w. (Inr (), w\<lparr>configPromise := map_option (map_sum (\<lambda>e. e) f) (configPromise w)\<rparr>))"

section \<open>Listing with live status\<close>

definition list_entry :: "string \<times> client \<Rightarrow> listed_client" where
  "list_entry e =
     (case e of (clientId, client) \<Rightarrow>
        \<lparr>l_id = clientId,
         l_name = name client,
         l_enabled = enabled client,
         l_address = address client,
         l_publicKey = publicKey client,
         l_createdAt = createdAt client,
         l_updatedAt = updatedAt client,
         l_allowedIPs = allowedIPs client,
         downloadableConfig = (privateKey client \<noteq> None),
         persistentKeepalive = None,
         latestHandshakeAt = None,
         transferRx = None,
         transferTx = None\<rparr>)"

text \<open>\<^verbatim>\<open>clients.find(...)\<close> followed by assignments to the entry found.\<close>

fun update_first :: "('a \<Rightarrow> bool) \<Rightarrow> ('a \<Rightarrow> 'a) \<Rightarrow> 'a list \<Rightarrow> 'a list" where
  "update_first P f [] = []"
| "update_first P f (x # xs) = (if P x then f x # xs else x # update_first P f xs)"

definition handshake_of :: "string option \<Rightarrow> jsdate option" where
  "handshake_of field =
     (if field = Some ''0'' then None
      else Some (new_Date (js_Number (Some (tpl field @ ''000'')))))"

definition merge_line :: "listed_client list \<Rightarrow> string \<Rightarrow> listed_client list" where
  "merge_line cs line =
     (let fields = js_split TAB line;
          publicKey = nth_opt fields 0;
          latestHandshakeAt = nth_opt fields 4;
          transferRx = nth_opt fields 5;
          transferTx = nth_opt fields 6;
          persistentKeepalive = nth_opt fields 7
      in update_first (\<lambda>client. Some (l_publicKey client) = publicKey)
           (\<lambda>client. client
              \<lparr>latestHandshakeAt := handshake_of latestHandshakeAt,
               transferRx := Some (js_Number transferRx),
               transferTx := Some (js_Number transferTx),
               persistentKeepalive := persistentKeepalive\<rparr>) cs)"

definition dump_lines :: "string \<Rightarrow> string list" where
  "dump_lines dump = drop 1 (js_split (CHR 0x0A) (js_trim dump))"

definition getClients :: "settings \<Rightarrow> outcomes \<Rightarrow> listed_client list io" where
  "getClients env out =
     bind (getConfig env out) (\<lambda>config.
       let clients = map list_entry (clients config) in
       bind (Util_exec out ''wg show wg0 dump'') (\<lambda>dump.
       return (foldl merge_line clients (dump_lines dump))))"

section \<open>Lookup and the client configuration\<close>

text \<open>
  \<^verbatim>\<open>config.clients[clientId]\<close> reads a property of a plain object: an own property
  if there is one, and otherwise what the object inherits from \<^verbatim>\<open>Object.prototype\<close>
  under that name, a function or (for \<^verbatim>\<open>__proto__\<close>) the prototype itself, all of
  them truthy.
\<close>

definition Object_prototype_keys :: "string list" where
  "Object_prototype_keys =
     [''constructor'', ''__proto__'', ''hasOwnProperty'', ''isPrototypeOf'',
      ''propertyIsEnumerable'', ''toLocaleString'', ''toString'', ''valueOf'',
      ''__defineGetter__'', ''__defineSetter__'', ''__lookupGetter__'', ''__lookupSetter__'']"

datatype property = Own client | Inherited string

definition get_property :: "(string \<times> client) list \<Rightarrow> string \<Rightarrow> property option" where
  "get_property obj key =
     (case map_of obj key of
        Some c \<Rightarrow> Some (Own c)
      | None \<Rightarrow> if key \<in> set Object_prototype_keys then Some (Inherited key) else None)"

definition getClient :: "settings \<Rightarrow> outcomes \<Rightarrow> string \<Rightarrow> property io" where
  "getClient env out clientId =
     bind (getConfig env out) (\<lambda>config.
       case get_property (clients config) clientId of
         None \<Rightarrow> throw (ServerError (''Client Not Found: '' @ clientId) 404)
       | Some client \<Rightarrow> return client)"

definition read_field ::
  "outcomes \<Rightarrow> property \<Rightarrow> (client \<Rightarrow> string option) \<Rightarrow> string \<Rightarrow> string option" where
  "read_field out p sel nm =
     (case p of Own c \<Rightarrow> sel c | Inherited k \<Rightarrow> builtin_property out k nm)"

definition clientConfiguration_text ::
  "settings \<Rightarrow> outcomes \<Rightarrow> wg_config \<Rightarrow> property \<Rightarrow> string" where
  "clientConfiguration_text env out config client =
     NL @ ''[Interface]'' @ NL @
     ''PrivateKey = '' @
       (if truthy (read_field out client privateKey ''privateKey'')
        then tpl (read_field out client privateKey ''privateKey'') else ''REPLACE_ME'') @ NL @
     ''Address = '' @ tpl (read_field out client (\<lambda>c. Some (address c)) ''address'') @ ''/'' @
       tpl (read_field out client cidrSubnet ''cidrSubnet'') @ NL @
     (if WG_DEFAULT_DNS env \<noteq> [] then ''DNS = '' @ WG_DEFAULT_DNS env @ NL else []) @
     (if WG_MTU env \<noteq> [] then ''MTU = '' @ WG_MTU env @ NL else []) @
     NL @
     ''[Peer]'' @ NL @
     ''PublicKey = '' @ srv_publicKey (server config) @ NL @
     (if truthy (read_field out client preSharedKey ''preSharedKey'')
      then ''PresharedKey = '' @ tpl (read_field out client preSharedKey ''preSharedKey'') @ NL
      else []) @
     ''AllowedIPs = '' @ WG_ALLOWED_IPS env @ NL @
     ''PersistentKeepalive = '' @ WG_PERSISTENT_KEEPALIVE env @ NL @
     ''Endpoint = '' @ WG_HOST env @ '':'' @ WG_CONFIG_PORT env"

definition getClientConfiguration :: "settings \<Rightarrow> outcomes \<Rightarrow> string \<Rightarrow> string io" where
  "getClientConfiguration env out clientId =
     bind (getConfig env out) (\<lambda>config.
     bind (getClient env out clientId) (\<lambda>client.
     return (clientConfiguration_text env out config client)))"

section \<open>Creating, deleting and changing clients\<close>

text \<open>Reading \<^verbatim>\<open>client.address\<close> when \<open>client\<close> may be undefined.\<close>

definition address_of :: "client option \<Rightarrow> error + string" where
  "address_of c = (case c of None \<Rightarrow> Inl TypeError | Some x \<Rightarrow> Inr (address x))"

definition with_suffix :: "string \<Rightarrow> nat \<Rightarrow> string" where
  "with_suffix a i = js_join ''.'' (js_set_index (js_split (CHR ''.'') a) 3 (String_of_nat i))"

text \<open>
  The loop \<^verbatim>\<open>for (let i = 2; i < 255; i++)\<close> of \<^verbatim>\<open>createClient\<close>. Its result is
  the error it throws, or the value \<open>address\<close> has when it ends (\<open>None\<close>: undefined).
  Inside \<^verbatim>\<open>if (!client)\<close> the variable \<open>client\<close> is the undefined result of
  \<^verbatim>\<open>find\<close>.
\<close>

function createClient_scan :: "(string \<times> client) list \<Rightarrow> nat \<Rightarrow> error + string option" where
  "createClient_scan cs i =
     (if i < 255 then
        (let client = find (\<lambda>client. address client = with_suffix (address client) i) (map snd cs)
         in if client = None then
              (case address_of client of
                 Inl e \<Rightarrow> Inl e
               | Inr a \<Rightarrow> Inr (Some (with_suffix a i)))
            else createClient_scan cs (i + 1))
      else Inr None)"
  by pat_completeness auto
termination
  by (relation "measure (\<lambda>(cs, i). 255 - i)") auto

declare createClient_scan.simps [simp del]

definition lift :: "error + 'a \<Rightarrow> 'a io" where
  "lift r = (\<lambda>w. (r, w))"

text \<open>
  After the loop, \<^verbatim>\<open>if (!address)\<close> reads \<open>client\<close>, which at that point is the
  \<^verbatim>\<open>const client\<close> declared further down and not yet initialised: a ReferenceError.
\<close>

definition createClient :: "settings \<Rightarrow> outcomes \<Rightarrow> string \<Rightarrow> client io" where
  "createClient env out nm =
     (if nm = [] then throw (Error ''Missing: Name'')
      else
        bind (getConfig env out) (\<lambda>config.
        bind (Util_exec out ''wg genkey'') (\<lambda>privateKey.
        bind (Util_exec out (''echo '' @ privateKey @ '' | wg pubkey'')) (\<lambda>publicKey.
        bind (Util_exec out ''wg genpsk'') (\<lambda>preSharedKey.
        bind (lift (createClient_scan (clients config) 2)) (\<lambda>address.
        bind (if \<not> truthy address then throw ReferenceError else return (tpl address)) (\<lambda>address.
          let id = randomUUID out;
              client = \<lparr>client_id = Some id, name = nm, address = address,
                        privateKey = Some privateKey, publicKey = publicKey,
                        preSharedKey = Some preSharedKey,
                        createdAt = Date_now out 0, updatedAt = Date_now out 1,
                        enabled = True, allowedIPs = None, cidrSubnet = None\<rparr>
          in
        bind (modify_config (\<lambda>c. c\<lparr>clients := AList.update id client (clients c)\<rparr>)) (\<lambda>_.
        bind (saveConfig env out) (\<lambda>_.
        return client)))))))))"

definition deleteClient :: "settings \<Rightarrow> outcomes \<Rightarrow> string \<Rightarrow> unit io" where
  "deleteClient env out clientId =
     bind (getConfig env out) (\<lambda>config.
       if get_property (clients config) clientId \<noteq> None then
         bind (modify_config (\<lambda>c. c\<lparr>clients := AList.delete clientId (clients c)\<rparr>)) (\<lambda>_.
         saveConfig env out)
       else return ())"

text \<open>
  Assignments to properties of the object \<^verbatim>\<open>getClient\<close> returned. On a stored
  client they change the shared configuration. On an inherited built-in object they
  land on that object, outside the configuration; the file is in strict mode, where
  assigning the read-only \<^verbatim>\<open>name\<close> of a function throws.
\<close>

definition assign ::
  "string \<Rightarrow> property \<Rightarrow> string list \<Rightarrow> (client \<Rightarrow> client) \<Rightarrow> unit io" where
  "assign clientId p props f =
     (case p of
        Own c \<Rightarrow>
          modify_config (\<lambda>cfg. cfg\<lparr>clients := AList.map_entry clientId f (clients cfg)\<rparr>)
      | Inherited k \<Rightarrow>
          if ''name'' \<in> set props \<and> k \<noteq> ''__proto__'' then throw TypeError
          else (\<lambda>w. (Inr (), w\<lparr>trace := trace w @ map (AssignBuiltin k) props\<rparr>)))"

definition enableClient :: "settings \<Rightarrow> outcomes \<Rightarrow> string \<Rightarrow> unit io" where
  "enableClient env out clientId =
     bind (getClient env out clientId) (\<lambda>client.
     bind (assign clientId client [''enabled'', ''updatedAt'']
             (\<lambda>c. c\<lparr>enabled := True, updatedAt := Date_now out 0\<rparr>)) (\<lambda>_.
     saveConfig env out))"

definition disableClient :: "settings \<Rightarrow> outcomes \<Rightarrow> string \<Rightarrow> unit io" where
  "disableClient env out clientId =
     bind (getClient env out clientId) (\<lambda>client.
     bind (assign clientId client [''enabled'', ''updatedAt'']
             (\<lambda>c. c\<lparr>enabled := False, updatedAt := Date_now out 0\<rparr>)) (\<lambda>_.
     saveConfig env out))"

definition updateClientName :: "settings \<Rightarrow> outcomes \<Rightarrow> string \<Rightarrow> string \<Rightarrow> unit io" where
  "updateClientName env out clientId nm =
     bind (getClient env out clientId) (\<lambda>client.
     bind (assign clientId client [''name'', ''updatedAt'']
             (\<lambda>c. c\<lparr>name := nm, updatedAt := Date_now out 0\<rparr>)) (\<lambda>_.
     saveConfig env out))"

definition updateClientAddress :: "settings \<Rightarrow> outcomes \<Rightarrow> string \<Rightarrow> string \<Rightarrow> unit io" where
  "updateClientAddress env out clientId addr =
     bind (getClient env out clientId) (\<lambda>client.
       if \<not> isValidIPv4 env addr then throw (ServerError (''Invalid Address: '' @ addr) 400)
       else
         bind (assign clientId client [''address'', ''updatedAt'']
                 (\<lambda>c. c\<lparr>address := addr, updatedAt := Date_now out 0\<rparr>)) (\<lambda>_.
         saveConfig env out))"

definition Shutdown :: "outcomes \<Rightarrow> unit io" where
  "Shutdown out =
     bind (catch (Util_exec out ''wg-quick down wg0'') (\<lambda>err. return [])) (\<lambda>_. return ())"

text \<open>
  Modelled from the spec: \<^verbatim>\<open>Util.isValidIPv4\<close>, whose source is not among the files.
  The spec asks for a syntactically valid IPv4 dotted quad: four parts separated by
  dots, each a non-empty string of decimal digits with a value of at most 255.
\<close>

definition valid_octet :: "string \<Rightarrow> bool" where
  "valid_octet s = (s \<noteq> [] \<and> all_digits s \<and> decimal_value s \<le> 255)"

definition isValidIPv4_spec :: "string \<Rightarrow> bool" where
  "isValidIPv4_spec s = (let blocks = js_split (CHR ''.'') s in length blocks = 4 \<and> list_all valid_octet blocks)"

section \<open>Vocabulary of the properties\<close>

text \<open>
  A client with the values of its private key and pre-shared key blanked; whether
  each of them is present is kept.
\<close>

definition redact :: "client \<Rightarrow> client" where
  "redact c = c\<lparr>privateKey := map_option (\<lambda>_. []) (privateKey c),
               preSharedKey := map_option (\<lambda>_. []) (preSharedKey c)\<rparr>"

definition redacted :: "wg_config \<Rightarrow> (string \<times> client) list" where
  "redacted cfg = map (\<lambda>(k, c). (k, redact c)) (clients cfg)"

text \<open>The configuration the bootstrap builds from a key pair and an address.\<close>

definition bootstrapped :: "string \<Rightarrow> string \<Rightarrow> string \<Rightarrow> wg_config" where
  "bootstrapped priv pub addr =
     \<lparr>server = \<lparr>srv_privateKey = priv, srv_publicKey = pub, srv_address = addr,
                 srv_cidrSubnet = None\<rparr>,
      clients = []\<rparr>"

text \<open>A value without a line break, and the settings and clients whose rendered values are such.\<close>

definition single_line :: "string \<Rightarrow> bool" where
  "single_line s = (CHR 0x0A \<notin> set s)"

definition single_line_settings :: "settings \<Rightarrow> bool" where
  "single_line_settings env =
     (single_line (WG_DEFAULT_DNS env) \<and> single_line (WG_MTU env) \<and>
      single_line (WG_ALLOWED_IPS env) \<and> single_line (WG_PERSISTENT_KEEPALIVE env) \<and>
      single_line (WG_HOST env) \<and> single_line (WG_CONFIG_PORT env))"

definition single_line_client :: "client \<Rightarrow> bool" where
  "single_line_client c =
     (single_line (address c) \<and> single_line (tpl (cidrSubnet c)) \<and>
      single_line (tpl (privateKey c)) \<and> single_line (tpl (preSharedKey c)))"

text \<open>The lines of the client configuration, for a stored client.\<close>

definition clientConfiguration_lines :: "settings \<Rightarrow> wg_config \<Rightarrow> client \<Rightarrow> string list" where
  "clientConfiguration_lines env config c =
     [[],
      ''[Interface]'',
      ''PrivateKey = '' @ (if truthy (privateKey c) then tpl (privateKey c) else ''REPLACE_ME''),
      ''Address = '' @ address c @ ''/'' @ tpl (cidrSubnet c)] @
     (if WG_DEFAULT_DNS env \<noteq> [] then [''DNS = '' @ WG_DEFAULT_DNS env] else []) @
     (if WG_MTU env \<noteq> [] then [''MTU = '' @ WG_MTU env] else []) @
     [[],
      ''[Peer]'',
      ''PublicKey = '' @ srv_publicKey (server config)] @
     (if truthy (preSharedKey c) then [''PresharedKey = '' @ tpl (preSharedKey c)] else []) @
     [''AllowedIPs = '' @ WG_ALLOWED_IPS env,
      ''PersistentKeepalive = '' @ WG_PERSISTENT_KEEPALIVE env,
      ''Endpoint = '' @ WG_HOST env @ '':'' @ WG_CONFIG_PORT env]"

text \<open>
  The first tab-separated field of a dump line (its public key), its fifth field (the
  latest handshake), and the lines of a dump that carry a given public key.
\<close>

definition line_key :: "string \<Rightarrow> string" where
  "line_key line = hd (js_split TAB line)"

definition line_handshake :: "string \<Rightarrow> string option" where
  "line_handshake line = nth_opt (js_split TAB line) 4"

definition matching_lines :: "string \<Rightarrow> string list \<Rightarrow> string list" where
  "matching_lines pk ls = filter (\<lambda>l. line_key l = pk) ls"

text \<open>
  A handshake field that is a time in epoch seconds: a non-empty string of decimal
  digits, within the range of a date.
\<close>

definition epoch_seconds :: "string \<Rightarrow> bool" where
  "epoch_seconds h = (h \<noteq> [] \<and> all_digits h \<and> 1000 * decimal_value h \<le> 8640000000000000)"

text \<open>No stored client before position \<open>j\<close> has the public key of the one at \<open>j\<close>.\<close>

definition first_with_key :: "(string \<times> client) list \<Rightarrow> nat \<Rightarrow> bool" where
  "first_with_key cs j = list_all (\<lambda>e. publicKey (snd e) \<noteq> publicKey (snd (cs ! j))) (take j cs)"

text \<open>The assignments one dump line makes to the entry it is matched to.\<close>

definition apply_line :: "string \<Rightarrow> listed_client \<Rightarrow> listed_client" where
  "apply_line line client =
     client\<lparr>latestHandshakeAt := handshake_of (line_handshake line),
            transferRx := Some (js_Number (nth_opt (js_split TAB line) 5)),
            transferTx := Some (js_Number (nth_opt (js_split TAB line) 6)),
            persistentKeepalive := nth_opt (js_split TAB line) 7\<rparr>"

text \<open>The same as \<open>first_with_key\<close>, on the list of public keys.\<close>

definition first_key :: "string list \<Rightarrow> nat \<Rightarrow> bool" where
  "first_key keys j = list_all (\<lambda>k. k \<noteq> keys ! j) (take j keys)"

section \<open>Example data\<close>

text \<open>
  A configuration with an enabled client that has a stored private key and a
  disabled one that has none, and a status dump: a header line, a line for each
  client and a line for a peer that is not stored.
\<close>

definition ex_env :: settings where
  "ex_env = \<lparr>WG_PATH = ''/etc/wireguard'', WG_HOST = ''vpn.example.com'', WG_PORT = ''51820'',
     WG_CONFIG_PORT = ''51820'', WG_MTU = [], WG_DEFAULT_DNS = ''1.1.1.1'',
     WG_DEFAULT_ADDRESS = ''10.8.0.0/24'', WG_PERSISTENT_KEEPALIVE = ''0'',
     WG_ALLOWED_IPS = ''0.0.0.0/0, ::/0'', WG_PRE_UP = [], WG_POST_UP = [], WG_PRE_DOWN = [],
     WG_POST_DOWN = [], isValidIPv4 = isValidIPv4_spec\<rparr>"

definition ex_dump :: string where
  "ex_dump =
     js_join NL
       [js_join [TAB] [''SRVPRIV'', ''SRVPUB'', ''51820'', ''off''],
        js_join [TAB] [''ALICEPUB'', ''(none)'', ''192.0.2.7:4242'', ''10.8.0.2/32'',
                       ''1690000000'', ''1024'', ''2048'', ''off''],
        js_join [TAB] [''STRANGER'', ''(none)'', ''(none)'', ''10.8.0.9/32'',
                       ''1690000001'', ''1'', ''2'', ''off''],
        js_join [TAB] [''BOBPUB'', ''(none)'', ''(none)'', ''10.8.0.3/32'',
                       ''0'', ''0'', ''0'', ''25'']] @ NL"

definition ex_out :: outcomes where
  "ex_out = \<lparr>readFile_result = None, writeFile_result = (\<lambda>_. None),
     exec_result = (\<lambda>cmd.
        if cmd = ''wg genkey'' then Inr ''NEWPRIV''
        else if cmd = ''echo NEWPRIV | wg pubkey'' then Inr ''NEWPUB''
        else if cmd = ''wg genpsk'' then Inr ''NEWPSK''
        else if cmd = ''wg show wg0 dump'' then Inr ex_dump
        else Inr []),
     Date_now = (\<lambda>_. 1700000000000), randomUUID = ''uuid-new'',
     builtin_property = (\<lambda>_ _. None)\<rparr>"

definition ex_alice :: client where
  "ex_alice = \<lparr>client_id = Some ''uuid-alice'', name = ''alice'', address = ''10.8.0.2'',
     privateKey = Some ''ALICEPRIV'', publicKey = ''ALICEPUB'', preSharedKey = Some ''ALICEPSK'',
     createdAt = 1600000000000, updatedAt = 1600000000000, enabled = True,
     allowedIPs = None, cidrSubnet = None\<rparr>"

definition ex_bob :: client where
  "ex_bob = \<lparr>client_id = Some ''uuid-bob'', name = ''bob'', address = ''10.8.0.3'',
     privateKey = None, publicKey = ''BOBPUB'', preSharedKey = None,
     createdAt = 1600000000001, updatedAt = 1600000000002, enabled = False,
     allowedIPs = None, cidrSubnet = None\<rparr>"

definition ex_config :: wg_config where
  "ex_config = \<lparr>server = \<lparr>srv_privateKey = ''SRVPRIV'', srv_publicKey = ''SRVPUB'',
                             srv_address = ''10.8.0.1'', srv_cidrSubnet = None\<rparr>,
                 clients = [(''uuid-alice'', ex_alice), (''uuid-bob'', ex_bob)]\<rparr>"

definition ex_loaded :: wireguard where
  "ex_loaded = \<lparr>configPromise = Some (Inr ex_config), trace = []\<rparr>"

definition ex_config_rekeyed :: wg_config where
  "ex_config_rekeyed =
     ex_config\<lparr>clients := [(''uuid-alice'', ex_alice\<lparr>privateKey := Some ''OTHERPRIV'',
                                                       preSharedKey := Some ''OTHERPSK''\<rparr>),
                            (''uuid-bob'', ex_bob)]\<rparr>"

text \<open>An instance before its first load, and one loaded with no client stored.\<close>

definition ex_fresh :: wireguard where
  "ex_fresh = \<lparr>configPromise = None, trace = []\<rparr>"

definition ex_empty :: wireguard where
  "ex_empty = \<lparr>configPromise = Some (Inr (bootstrapped ''SRVPRIV'' ''SRVPUB'' ''10.8.0.1'')),
               trace = []\<rparr>"

lemmas ex_defs = ex_env_def ex_out_def ex_alice_def ex_bob_def ex_config_def ex_loaded_def
  ex_config_rekeyed_def

section \<open>Facts about the model\<close>

subsection \<open>The monad, the cache and the stored fields of the listing\<close>

lemma bind_apply: "bind m f w = (case m w of (Inl e, w') \<Rightarrow> (Inl e, w') | (Inr x, w') \<Rightarrow> f x w')"
  by (simp add: bind_def)

lemma return_apply: "return x w = (Inr x, w)"
  by (simp add: return_def)

lemma throw_apply: "throw e w = (Inl e, w)"
  by (simp add: throw_def)

lemmas io_simps = bind_apply return_apply throw_apply

lemma getConfig_cached: "configPromise w = Some r \<Longrightarrow> getConfig env out w = (r, w)"
  by (simp add: getConfig_def)

lemma Util_exec_apply:
  "Util_exec out cmd w =
     (case exec_result out cmd of Inl m \<Rightarrow> Inl (Error m) | Inr s \<Rightarrow> Inr s, emit (Exec cmd) w)"
  by (simp add: Util_exec_def)

lemma getClients_loaded:
  assumes "configPromise w = Some (Inr cfg)"
  shows "getClients env out w =
     (case exec_result out ''wg show wg0 dump'' of
        Inl m \<Rightarrow> Inl (Error m)
      | Inr dump \<Rightarrow> Inr (foldl merge_line (map list_entry (clients cfg)) (dump_lines dump)),
      emit (Exec ''wg show wg0 dump'') w)"
  using assms
  by (simp add: getClients_def io_simps getConfig_cached Util_exec_apply split: sum.splits)

lemma saveConfig_loop_eq:
  "saveConfig_loop cs r =
     r @ concat (map (\<lambda>(k, c). peer_text k c) (filter (\<lambda>(k, c). enabled c) cs))"
  by (induction cs arbitrary: r) auto

lemma update_first_map:
  assumes "\<And>x. g (f x) = g x"
  shows "map g (update_first P f xs) = map g xs"
  using assms by (induction xs) auto

lemma merge_line_stored:
  "map (\<lambda>e. (l_id e, l_name e, l_enabled e, l_address e, l_publicKey e, l_createdAt e, l_updatedAt e, l_allowedIPs e, downloadableConfig e)) (merge_line cs line) =
   map (\<lambda>e. (l_id e, l_name e, l_enabled e, l_address e, l_publicKey e, l_createdAt e, l_updatedAt e, l_allowedIPs e, downloadableConfig e)) cs"
  by (simp add: merge_line_def Let_def update_first_map)

lemma foldl_merge_line_stored:
  "map (\<lambda>e. (l_id e, l_name e, l_enabled e, l_address e, l_publicKey e, l_createdAt e, l_updatedAt e, l_allowedIPs e, downloadableConfig e)) (foldl merge_line cs ls) =
   map (\<lambda>e. (l_id e, l_name e, l_enabled e, l_address e, l_publicKey e, l_createdAt e, l_updatedAt e, l_allowedIPs e, downloadableConfig e)) cs"
  by (induction ls arbitrary: cs) (simp_all add: merge_line_stored)

lemma list_entry_redact: "list_entry (k, redact c) = list_entry (k, c)"
  by (simp add: list_entry_def redact_def)

lemma map_list_entry_redacted: "map list_entry (redacted cfg) = map list_entry (clients cfg)"
  by (simp add: redacted_def list_entry_redact split_def)

lemma fs_writeFile_apply:
  "fs_writeFile out dir file c mode w =
     (case writeFile_result out file of
        Some m \<Rightarrow> (Inl (Error m), w)
      | None \<Rightarrow> (Inr (), emit (WriteFile dir file c mode) w))"
  by (simp add: fs_writeFile_def)

lemma distinct_filter_eq_length:
  "distinct xs \<Longrightarrow> x \<in> set xs \<Longrightarrow> length (filter (\<lambda>y. y = x) xs) = 1"
  by (induction xs) (auto simp: filter_empty_conv)

lemma private_saveConfig_ok:
  assumes "writeFile_result out ''wg0.json'' = None" and "writeFile_result out ''wg0.conf'' = None"
  shows "private_saveConfig env out cfg w =
     (Inr (), w\<lparr>trace := trace w @
        [WriteFile (WG_PATH env) ''wg0.json'' (Json cfg) 432,
         WriteFile (WG_PATH env) ''wg0.conf'' (Text (saveConfig_text env cfg)) 384]\<rparr>)"
  using assms by (simp add: private_saveConfig_def io_simps fs_writeFile_apply emit_def)

lemma listing_ids:
  "map (\<lambda>e. (l_id e, l_enabled e)) (foldl merge_line (map list_entry cs) ls) =
   map (\<lambda>(k, c). (k, enabled c)) cs"
proof -
  have "map (\<lambda>t. (fst t, fst (snd (snd t))))
          (map (\<lambda>e. (l_id e, l_name e, l_enabled e, l_address e, l_publicKey e, l_createdAt e,
                      l_updatedAt e, l_allowedIPs e, downloadableConfig e))
             (foldl merge_line (map list_entry cs) ls)) =
        map (\<lambda>t. (fst t, fst (snd (snd t))))
          (map (\<lambda>e. (l_id e, l_name e, l_enabled e, l_address e, l_publicKey e, l_createdAt e,
                      l_updatedAt e, l_allowedIPs e, downloadableConfig e))
             (map list_entry cs))"
    by (simp only: foldl_merge_line_stored)
  then show ?thesis
    by (simp add: comp_def list_entry_def split_def)
qed

subsection \<open>Splitting, and the first load\<close>

lemma js_split_nonempty: "js_split sep s \<noteq> []"
  by (induction s) (auto split: list.splits)

lemma js_split_no_sep: "sep \<notin> set s \<Longrightarrow> js_split sep s = [s]"
  by (induction s) auto

lemma js_split_append: "sep \<notin> set xs \<Longrightarrow> js_split sep (xs @ sep # ys) = xs # js_split sep ys"
  by (induction xs) auto

lemma catch_apply:
  "catch m h w = (case m w of (Inl e, w') \<Rightarrow> h e w' | (Inr x, w') \<Rightarrow> (Inr x, w'))"
  by (simp add: catch_def)

lemma readFile_JSON_apply:
  "readFile_JSON out dir file w =
     (case readFile_result out of None \<Rightarrow> Inl (Error ''read or parse failure'') | Some c \<Rightarrow> Inr c,
      emit (ReadFile dir file) w)"
  by (simp add: readFile_JSON_def)

lemma private_syncConfig_apply:
  "private_syncConfig out w =
     (case exec_result out ''wg syncconf wg0 <(wg-quick strip wg0)'' of
        Inl m \<Rightarrow> Inl (Error m) | Inr s \<Rightarrow> Inr (),
      emit (Exec ''wg syncconf wg0 <(wg-quick strip wg0)'') w)"
  by (simp add: private_syncConfig_def io_simps Util_exec_apply split: sum.splits)

lemma dotted_quad_suffix_1:
  assumes "CHR ''.'' \<notin> set a" "CHR ''.'' \<notin> set b" "CHR ''.'' \<notin> set c" "CHR ''.'' \<notin> set d"
  shows "js_join ''.'' (js_set_index (js_split (CHR ''.'') (a @ ''.'' @ b @ ''.'' @ c @ ''.'' @ d)) 3 v)
           = a @ ''.'' @ b @ ''.'' @ c @ ''.'' @ v"
  using assms by (simp add: js_split_append js_split_no_sep js_set_index_def)

lemma bootstrap_ok:
  assumes "exec_result out ''wg genkey'' = Inr priv"
    and "exec_result out (''echo '' @ priv @ '' | wg pubkey'') = Inr pub"
    and "WG_DEFAULT_ADDRESS env = a @ ''.'' @ b @ ''.'' @ c @ ''.'' @ d @ ''/'' @ n"
    and "\<forall>x \<in> set (a @ b @ c @ d). x \<noteq> CHR ''.'' \<and> x \<noteq> CHR ''/''"
  shows "bootstrap env out w =
     (Inr \<lparr>server = \<lparr>srv_privateKey = priv, srv_publicKey = pub,
                      srv_address = a @ ''.'' @ b @ ''.'' @ c @ ''.'' @ ''1'',
                      srv_cidrSubnet = None\<rparr>,
           clients = []\<rparr>,
      w\<lparr>trace := trace w @ [Exec ''wg genkey'', Exec (''echo '' @ priv @ '' | wg pubkey'')]\<rparr>)"
proof -
  have nd: "CHR ''.'' \<notin> set a" "CHR ''.'' \<notin> set b" "CHR ''.'' \<notin> set c" "CHR ''.'' \<notin> set d"
    using assms(4) by auto
  have ns: "CHR ''/'' \<notin> set (a @ ''.'' @ b @ ''.'' @ c @ ''.'' @ d)"
    using assms(4) by auto
  have "js_split (CHR ''/'') (WG_DEFAULT_ADDRESS env) =
          (a @ ''.'' @ b @ ''.'' @ c @ ''.'' @ d) # js_split (CHR ''/'') n"
    using js_split_append [OF ns, of n] by (simp add: assms(3))
  then have h: "hd (js_split (CHR ''/'') (WG_DEFAULT_ADDRESS env)) = a @ ''.'' @ b @ ''.'' @ c @ ''.'' @ d"
    by simp
  show ?thesis
    using assms(1,2) h dotted_quad_suffix_1 [OF nd, of "''1''"]
    by (simp add: bootstrap_def io_simps Util_exec_apply Let_def emit_def)
qed

lemma loadConfig_bootstrap:
  assumes "WG_HOST env \<noteq> []" and "readFile_result out = None"
    and "exec_result out ''wg genkey'' = Inr priv"
    and "exec_result out (''echo '' @ priv @ '' | wg pubkey'') = Inr pub"
    and "WG_DEFAULT_ADDRESS env = a @ ''.'' @ b @ ''.'' @ c @ ''.'' @ d @ ''/'' @ n"
    and "\<forall>x \<in> set (a @ b @ c @ d). x \<noteq> CHR ''.'' \<and> x \<noteq> CHR ''/''"
    and "writeFile_result out ''wg0.json'' = None" and "writeFile_result out ''wg0.conf'' = None"
    and "exec_result out ''wg-quick up wg0'' = Inr up"
    and "exec_result out ''wg syncconf wg0 <(wg-quick strip wg0)'' = Inr sy"
  shows "loadConfig env out w =
     (Inr (bootstrapped priv pub (a @ ''.'' @ b @ ''.'' @ c @ ''.'' @ ''1'')),
      w\<lparr>trace := trace w @
        [ReadFile (WG_PATH env) ''wg0.json'',
         Exec ''wg genkey'',
         Exec (''echo '' @ priv @ '' | wg pubkey''),
         WriteFile (WG_PATH env) ''wg0.json''
           (Json (bootstrapped priv pub (a @ ''.'' @ b @ ''.'' @ c @ ''.'' @ ''1''))) 432,
         WriteFile (WG_PATH env) ''wg0.conf''
           (Text (saveConfig_text env (bootstrapped priv pub (a @ ''.'' @ b @ ''.'' @ c @ ''.'' @ ''1'')))) 384,
         Exec ''wg-quick down wg0'',
         Exec ''wg-quick up wg0'',
         Exec ''wg syncconf wg0 <(wg-quick strip wg0)'']\<rparr>)"
proof -
  let ?boot = "bootstrapped priv pub (a @ ''.'' @ b @ ''.'' @ c @ ''.'' @ ''1'')"
  let ?w1 = "emit (ReadFile (WG_PATH env) ''wg0.json'') w"
  have s1: "catch (readFile_JSON out (WG_PATH env) ''wg0.json'') (\<lambda>err. bootstrap env out) w =
        (Inr ?boot, ?w1\<lparr>trace := trace ?w1 @ [Exec ''wg genkey'', Exec (''echo '' @ priv @ '' | wg pubkey'')]\<rparr>)"
    by (simp only: catch_apply readFile_JSON_apply assms(2) option.case prod.case sum.case
        bootstrap_ok [OF assms(3,4,5,6)] bootstrapped_def)
  have s3: "catch (Util_exec out ''wg-quick down wg0'') (\<lambda>err. return []) w' =
        (Inr (case exec_result out ''wg-quick down wg0'' of Inl m \<Rightarrow> [] | Inr x \<Rightarrow> x),
         emit (Exec ''wg-quick down wg0'') w')" for w'
    by (simp add: catch_apply Util_exec_apply io_simps split: sum.splits)
  have s4: "catch (Util_exec out ''wg-quick up wg0'') h w' = (Inr up, emit (Exec ''wg-quick up wg0'') w')"
    for h w'
    by (simp add: catch_apply Util_exec_apply assms(9))
  have s5: "private_syncConfig out w' = (Inr (), emit (Exec ''wg syncconf wg0 <(wg-quick strip wg0)'') w')"
    for w'
    by (simp add: private_syncConfig_apply assms(10))
  show ?thesis
    using assms(1) s1
    by (simp add: loadConfig_def io_simps private_saveConfig_ok [OF assms(7,8)] s3 s4 s5 emit_def)
qed

lemma getConfig_twice:
  "getConfig env' out' (snd (getConfig env out w)) = getConfig env out w"
  by (cases "configPromise w") (simp_all add: getConfig_def split: prod.splits)

subsection \<open>Creating a client\<close>

lemma createClient_scan_no_address:
  "createClient_scan cs i = Inr r \<Longrightarrow> r = None"
proof (induction cs i rule: createClient_scan.induct)
  case (1 cs i)
  show ?case
  proof (cases "i < 255")
    case False
    then show ?thesis using "1.prems" by (subst (asm) createClient_scan.simps) simp
  next
    case True
    let ?client = "find (\<lambda>client. address client = with_suffix (address client) i) (map snd cs)"
    show ?thesis
    proof (cases "?client = None")
      case n: True
      then show ?thesis
        using "1.prems" True
        by (subst (asm) createClient_scan.simps) (simp add: address_of_def)
    next
      case s: False
      then have "createClient_scan cs (i + 1) = Inr r"
        using "1.prems" True by (subst (asm) createClient_scan.simps) (auto simp: Let_def)
      then show ?thesis
        using "1.IH" [OF True refl s] by simp
    qed
  qed
qed

lemma bind_fails:
  assumes "\<And>x w'. \<exists>e. fst (f x w') = Inl e"
  shows "\<exists>e. fst (bind m f w) = Inl e"
proof (cases "m w")
  case (Pair r w')
  then show ?thesis
    using assms by (cases r) (simp_all add: bind_apply)
qed

lemma lift_apply: "lift r w = (r, w)"
  by (simp add: lift_def)

lemma createClient_tail_fails:
  "\<exists>e. fst (bind (lift (createClient_scan cs 2))
             (\<lambda>address. bind (if \<not> truthy address then throw ReferenceError else return (tpl address)) k) w) = Inl e"
proof (cases "createClient_scan cs 2")
  case (Inl e)
  then show ?thesis by (simp add: bind_apply lift_apply)
next
  case (Inr r)
  then have "r = None" by (rule createClient_scan_no_address)
  then show ?thesis using Inr by (simp add: bind_apply lift_apply truthy_def throw_apply)
qed

lemma createClient_never_returns:
  "\<exists>e. fst (createClient env out nm w) = Inl e"
proof (cases "nm = []")
  case True
  then show ?thesis by (simp add: createClient_def throw_apply)
next
  case False
  show ?thesis
    unfolding createClient_def using False
    by (simp only: if_False) (intro bind_fails createClient_tail_fails)
qed

lemma ex_scan: "createClient_scan (clients ex_config) 2 = Inl TypeError"
  by code_simp

lemma ex_scan_empty: "createClient_scan [] 2 = Inl TypeError"
  by code_simp

lemma createClient_ex_empty:
  "createClient ex_env ex_out ''carol'' ex_empty =
     (Inl TypeError,
      ex_empty\<lparr>trace := [Exec ''wg genkey'', Exec ''echo NEWPRIV | wg pubkey'', Exec ''wg genpsk'']\<rparr>)"
  by (simp add: createClient_def io_simps lift_apply Util_exec_apply getConfig_cached ex_empty_def
      ex_out_def emit_def ex_scan_empty bootstrapped_def)

lemma createClient_ex_loaded:
  "createClient ex_env ex_out ''carol'' ex_loaded =
     (Inl TypeError,
      ex_loaded\<lparr>trace := [Exec ''wg genkey'', Exec ''echo NEWPRIV | wg pubkey'', Exec ''wg genpsk'']\<rparr>)"
  by (simp add: createClient_def io_simps lift_apply Util_exec_apply getConfig_cached ex_loaded_def
      ex_out_def emit_def ex_scan)

subsection \<open>Lookup, saving and the address update\<close>

lemma getClient_loaded:
  assumes "configPromise w = Some (Inr cfg)"
  shows "getClient env out clientId w =
     (case get_property (clients cfg) clientId of
        None \<Rightarrow> Inl (ServerError (''Client Not Found: '' @ clientId) 404)
      | Some client \<Rightarrow> Inr client, w)"
  using assms by (simp add: getClient_def io_simps getConfig_cached split: option.splits)

lemma unknown_id_404:
  assumes "configPromise w = Some (Inr cfg)" and "map_of (clients cfg) clientId = None"
    and "clientId \<notin> set Object_prototype_keys"
  shows "getClient env out clientId w = (Inl (ServerError (''Client Not Found: '' @ clientId) 404), w)"
    and "enableClient env out clientId w = (Inl (ServerError (''Client Not Found: '' @ clientId) 404), w)"
    and "disableClient env out clientId w = (Inl (ServerError (''Client Not Found: '' @ clientId) 404), w)"
    and "updateClientName env out clientId nm w = (Inl (ServerError (''Client Not Found: '' @ clientId) 404), w)"
    and "updateClientAddress env out clientId addr w = (Inl (ServerError (''Client Not Found: '' @ clientId) 404), w)"
    and "getClientConfiguration env out clientId w = (Inl (ServerError (''Client Not Found: '' @ clientId) 404), w)"
proof -
  have g: "get_property (clients cfg) clientId = None"
    using assms(2,3) by (simp add: get_property_def)
  show c: "getClient env out clientId w = (Inl (ServerError (''Client Not Found: '' @ clientId) 404), w)"
    by (simp add: getClient_loaded [OF assms(1)] g)
  show "enableClient env out clientId w = (Inl (ServerError (''Client Not Found: '' @ clientId) 404), w)"
    by (simp add: enableClient_def bind_apply c)
  show "disableClient env out clientId w = (Inl (ServerError (''Client Not Found: '' @ clientId) 404), w)"
    by (simp add: disableClient_def bind_apply c)
  show "updateClientName env out clientId nm w = (Inl (ServerError (''Client Not Found: '' @ clientId) 404), w)"
    by (simp add: updateClientName_def bind_apply c)
  show "updateClientAddress env out clientId addr w = (Inl (ServerError (''Client Not Found: '' @ clientId) 404), w)"
    by (simp add: updateClientAddress_def bind_apply c)
  show "getClientConfiguration env out clientId w = (Inl (ServerError (''Client Not Found: '' @ clientId) 404), w)"
    by (simp add: getClientConfiguration_def bind_apply c getConfig_cached [OF assms(1)])
qed

lemma saveConfig_loaded:
  assumes "configPromise w = Some (Inr cfg)"
    and "writeFile_result out ''wg0.json'' = None" and "writeFile_result out ''wg0.conf'' = None"
  shows "saveConfig env out w =
     (case exec_result out ''wg syncconf wg0 <(wg-quick strip wg0)'' of
        Inl m \<Rightarrow> Inl (Error m) | Inr s \<Rightarrow> Inr (),
      w\<lparr>trace := trace w @
        [WriteFile (WG_PATH env) ''wg0.json'' (Json cfg) 432,
         WriteFile (WG_PATH env) ''wg0.conf'' (Text (saveConfig_text env cfg)) 384,
         Exec ''wg syncconf wg0 <(wg-quick strip wg0)'']\<rparr>)"
  by (simp add: saveConfig_def bind_apply getConfig_cached [OF assms(1)]
      private_saveConfig_ok [OF assms(2,3)] private_syncConfig_apply emit_def)

lemma saveConfig_configPromise:
  assumes "configPromise w = Some r"
  shows "configPromise (snd (saveConfig env out w)) = Some r"
  using assms
  by (cases r)
     (auto simp: saveConfig_def bind_apply getConfig_cached private_saveConfig_def Let_def
        fs_writeFile_apply private_syncConfig_apply emit_def split: option.splits sum.splits)

lemma map_fst_map_entry: "map fst (AList.map_entry k f xs) = map fst xs"
  by (induction xs) auto

lemma assign_own:
  assumes "configPromise w = Some (Inr cfg)"
  shows "assign clientId (Own c) props f w =
     (Inr (), w\<lparr>configPromise := Some (Inr (cfg\<lparr>clients := AList.map_entry clientId f (clients cfg)\<rparr>))\<rparr>)"
  using assms by (simp add: assign_def modify_config_def)

lemma updateClientAddress_own:
  assumes "configPromise w = Some (Inr cfg)" and "map_of (clients cfg) clientId = Some c"
  shows "updateClientAddress env out clientId addr w =
     (if \<not> isValidIPv4 env addr then (Inl (ServerError (''Invalid Address: '' @ addr) 400), w)
      else saveConfig env out
             (w\<lparr>configPromise := Some (Inr (cfg\<lparr>clients :=
                  AList.map_entry clientId (\<lambda>c. c\<lparr>address := addr, updatedAt := Date_now out 0\<rparr>)
                    (clients cfg)\<rparr>))\<rparr>))"
proof -
  have g: "getClient env out clientId w = (Inr (Own c), w)"
    by (simp add: getClient_loaded [OF assms(1)] get_property_def assms(2))
  show ?thesis
    by (simp add: updateClientAddress_def bind_apply g throw_apply assign_own [OF assms(1)])
qed

lemma ex_validity: "\<not> isValidIPv4_spec ''999.1.1.1''" "isValidIPv4_spec ''10.8.0.5''"
  by code_simp+

subsection \<open>The rendered texts\<close>

lemma js_includes_prefix: "take (length p) xs = p \<Longrightarrow> js_includes xs p"
  by (cases xs) auto

lemma js_includes_append: "js_includes (a @ p @ b) p"
proof (induction a)
  case Nil
  show ?case by (rule js_includes_prefix) simp
next
  case (Cons x a)
  then show ?case by simp
qed

lemma take_prefix_append: "n \<le> length ys \<Longrightarrow> take n (ys @ b) = take n ys"
  by simp

lemma js_includes_extend: "js_includes xs p \<Longrightarrow> js_includes (xs @ b) p"
proof (induction xs)
  case Nil
  then show ?case by (simp add: js_includes_prefix)
next
  case (Cons x xs)
  show ?case
  proof (cases "take (length p) (x # xs) = p")
    case True
    have "length (take (length p) (x # xs)) \<le> length (x # xs)"
      by simp
    then have "length p \<le> length (x # xs)"
      unfolding True .
    then have "take (length p) ((x # xs) @ b) = take (length p) (x # xs)"
      by (rule take_prefix_append)
    then have "take (length p) ((x # xs) @ b) = p"
      unfolding True .
    then show ?thesis by (rule js_includes_prefix)
  next
    case False
    then have "js_includes xs p" using Cons.prems by simp
    then show ?thesis using Cons.IH by simp
  qed
qed

lemma interface_text_address:
  "js_includes (interface_text env cfg)
     (NL @ ''Address = '' @ srv_address (server cfg) @ ''/'' @ tpl (srv_cidrSubnet (server cfg)) @ NL)"
proof -
  have "interface_text env cfg =
      (NL @ ''# Note: Do not edit this file directly.'' @ NL @
       ''# Your changes will be overwritten!'' @ NL @ NL @ ''# Server'' @ NL @ ''[Interface]'' @ NL @
       ''PrivateKey = '' @ srv_privateKey (server cfg)) @
      (NL @ ''Address = '' @ srv_address (server cfg) @ ''/'' @ tpl (srv_cidrSubnet (server cfg)) @ NL) @
      (''ListenPort = '' @ WG_PORT env @ NL @ ''PreUp = '' @ WG_PRE_UP env @ NL @
       ''PostUp = '' @ WG_POST_UP env @ NL @ ''PreDown = '' @ WG_PRE_DOWN env @ NL @
       ''PostDown = '' @ WG_POST_DOWN env @ NL)"
    by (simp add: interface_text_def)
  then show ?thesis
    by (simp only: js_includes_append)
qed

lemma saveConfig_text_address:
  "js_includes (saveConfig_text env cfg)
     (NL @ ''Address = '' @ srv_address (server cfg) @ ''/'' @ tpl (srv_cidrSubnet (server cfg)) @ NL)"
  unfolding saveConfig_text_def saveConfig_loop_eq
  by (rule js_includes_extend) (rule interface_text_address)

lemma clientConfiguration_text_address:
  "js_includes (clientConfiguration_text env out cfg (Own c))
     (NL @ ''Address = '' @ address c @ ''/'' @ tpl (cidrSubnet c) @ NL)"
proof -
  have "\<exists>a b. clientConfiguration_text env out cfg (Own c) =
      a @ (NL @ ''Address = '' @ address c @ ''/'' @ tpl (cidrSubnet c) @ NL) @ b"
    unfolding clientConfiguration_text_def read_field_def property.case tpl_def [of "Some (address c)"] option.case
    by (intro exI [where x = "NL @ ''[Interface]'' @ NL @ ''PrivateKey = '' @
          (if truthy (privateKey c) then tpl (privateKey c) else ''REPLACE_ME'')"] exI) simp
  then show ?thesis
    using js_includes_append by metis
qed

lemma getConfig_ex_fresh:
  "getConfig ex_env ex_out ex_fresh =
     (Inr (bootstrapped ''NEWPRIV'' ''NEWPUB'' ''10.8.0.1''),
      \<lparr>configPromise = Some (Inr (bootstrapped ''NEWPRIV'' ''NEWPUB'' ''10.8.0.1'')),
       trace =
         [ReadFile ''/etc/wireguard'' ''wg0.json'',
          Exec ''wg genkey'',
          Exec ''echo NEWPRIV | wg pubkey'',
          WriteFile ''/etc/wireguard'' ''wg0.json''
            (Json (bootstrapped ''NEWPRIV'' ''NEWPUB'' ''10.8.0.1'')) 432,
          WriteFile ''/etc/wireguard'' ''wg0.conf''
            (Text (saveConfig_text ex_env (bootstrapped ''NEWPRIV'' ''NEWPUB'' ''10.8.0.1''))) 384,
          Exec ''wg-quick down wg0'',
          Exec ''wg-quick up wg0'',
          Exec ''wg syncconf wg0 <(wg-quick strip wg0)'']\<rparr>)"
proof -
  have h: "WG_HOST ex_env \<noteq> []" "readFile_result ex_out = None"
    "exec_result ex_out ''wg genkey'' = Inr ''NEWPRIV''"
    "exec_result ex_out (''echo '' @ ''NEWPRIV'' @ '' | wg pubkey'') = Inr ''NEWPUB''"
    "WG_DEFAULT_ADDRESS ex_env = ''10'' @ ''.'' @ ''8'' @ ''.'' @ ''0'' @ ''.'' @ ''0'' @ ''/'' @ ''24''"
    "\<forall>x \<in> set (''10'' @ ''8'' @ ''0'' @ ''0''). x \<noteq> CHR ''.'' \<and> x \<noteq> CHR ''/''"
    "writeFile_result ex_out ''wg0.json'' = None" "writeFile_result ex_out ''wg0.conf'' = None"
    "exec_result ex_out ''wg-quick up wg0'' = Inr []"
    "exec_result ex_out ''wg syncconf wg0 <(wg-quick strip wg0)'' = Inr []"
    by (simp_all add: ex_env_def ex_out_def)
  have p: "WG_PATH ex_env = ''/etc/wireguard''"
    by (simp add: ex_env_def)
  show ?thesis
    using loadConfig_bootstrap [OF h, of ex_fresh]
    by (simp add: getConfig_def ex_fresh_def p)
qed

lemma saveConfig_text_ex_fresh:
  "saveConfig_text ex_env (bootstrapped ''NEWPRIV'' ''NEWPUB'' ''10.8.0.1'') =
     js_join NL
       [[],
        ''# Note: Do not edit this file directly.'',
        ''# Your changes will be overwritten!'',
        [],
        ''# Server'',
        ''[Interface]'',
        ''PrivateKey = NEWPRIV'',
        ''Address = 10.8.0.1/undefined'',
        ''ListenPort = 51820'',
        ''PreUp = '',
        ''PostUp = '',
        ''PreDown = '',
        ''PostDown = '',
        []]"
  by (simp add: saveConfig_text_def interface_text_def bootstrapped_def ex_env_def tpl_def NL_def)

lemma js_split_join:
  "ls \<noteq> [] \<Longrightarrow> list_all single_line ls \<Longrightarrow> js_split (CHR 0x0A) (js_join NL ls) = ls"
proof (induction ls)
  case Nil
  then show ?case by simp
next
  case (Cons x xs)
  have x: "CHR 0x0A \<notin> set x"
    using Cons.prems by (simp add: single_line_def)
  show ?case
  proof (cases xs)
    case Nil
    then show ?thesis using x by (simp add: js_split_no_sep)
  next
    case (Cons y ys)
    then have "js_split (CHR 0x0A) (js_join NL xs) = xs"
      using Cons.IH Cons.prems by simp
    then show ?thesis
      using Cons js_split_append [OF x, of "js_join NL xs"] by (simp add: NL_def)
  qed
qed

lemma clientConfiguration_text_lines:
  "clientConfiguration_text env out config (Own c) = js_join NL (clientConfiguration_lines env config c)"
  by (simp add: clientConfiguration_text_def clientConfiguration_lines_def read_field_def tpl_def [of "Some (address c)"])

lemma clientConfiguration_lines_single:
  assumes "single_line_settings env" and "single_line_client c"
    and "single_line (srv_publicKey (server config))"
  shows "list_all single_line (clientConfiguration_lines env config c)"
  using assms
  by (simp add: clientConfiguration_lines_def single_line_settings_def single_line_client_def
      single_line_def)

lemma clientConfiguration_lines_sections:
  "count_list (clientConfiguration_lines env config c) ''[Interface]'' = 1"
  "count_list (clientConfiguration_lines env config c) ''[Peer]'' = 1"
  by (simp_all add: clientConfiguration_lines_def)

lemma clientConfiguration_lines_key:
  "nth_opt (clientConfiguration_lines env config c) 2 =
     Some (''PrivateKey = '' @ (if truthy (privateKey c) then tpl (privateKey c) else ''REPLACE_ME''))"
  by (simp add: clientConfiguration_lines_def nth_opt_def)

lemma getClientConfiguration_own:
  assumes "configPromise w = Some (Inr cfg)" and "map_of (clients cfg) clientId = Some c"
  shows "getClientConfiguration env out clientId w =
           (Inr (clientConfiguration_text env out cfg (Own c)), w)"
proof -
  have g: "getClient env out clientId w = (Inr (Own c), w)"
    by (simp add: getClient_loaded [OF assms(1)] get_property_def assms(2))
  show ?thesis
    by (simp add: getClientConfiguration_def bind_apply getConfig_cached [OF assms(1)] g return_apply)
qed

subsection \<open>Merging the status dump\<close>

lemma nth_opt_0: "xs \<noteq> [] \<Longrightarrow> nth_opt xs 0 = Some (hd xs)"
  by (cases xs) (simp_all add: nth_opt_def)

lemma merge_line_alt:
  "merge_line cs line = update_first (\<lambda>client. l_publicKey client = line_key line) (apply_line line) cs"
  by (simp add: merge_line_def Let_def line_key_def line_handshake_def apply_line_def [abs_def]
      nth_opt_0 [OF js_split_nonempty])

lemma length_update_first: "length (update_first P f xs) = length xs"
  by (induction xs) auto

lemma update_first_none: "list_all (\<lambda>x. \<not> P x) xs \<Longrightarrow> update_first P f xs = xs"
  by (induction xs) auto

lemma update_first_nth:
  "j < length xs \<Longrightarrow>
   update_first P f xs ! j =
     (if P (xs ! j) \<and> list_all (\<lambda>x. \<not> P x) (take j xs) then f (xs ! j) else xs ! j)"
proof (induction xs arbitrary: j)
  case Nil
  then show ?case by simp
next
  case (Cons x xs)
  show ?case
  proof (cases j)
    case 0
    then show ?thesis by simp
  next
    case (Suc k)
    then show ?thesis using Cons by simp
  qed
qed

lemma decimal_value_append:
  "decimal_value (a @ b) = foldl (\<lambda>n c. 10 * n + digit_value c) (decimal_value a) b"
  by (simp add: decimal_value_def)

lemma decimal_value_000: "decimal_value (h @ ''000'') = 1000 * decimal_value h"
  by (simp add: decimal_value_append digit_value_def)

lemma all_digits_000: "all_digits (h @ ''000'') = all_digits h"
  by (simp add: all_digits_def is_digit_def)

lemma handshake_of_zero: "handshake_of (Some ''0'') = None"
  by (simp add: handshake_of_def)

lemma handshake_of_epoch_seconds:
  assumes "epoch_seconds h" and "h \<noteq> ''0''"
  shows "handshake_of (Some h) = Some (DateMs (1000 * int (decimal_value h)))"
proof -
  have d: "all_digits (h @ ''000'')"
    using assms(1) by (simp add: all_digits_000 epoch_seconds_def)
  have v: "decimal_value (h @ ''000'') \<le> 8640000000000000"
    using assms(1) by (simp add: decimal_value_000 epoch_seconds_def)
  then have v2: "decimal_value (h @ ''000'') \<le> 2 ^ 53"
    by simp
  have "js_Number (Some (h @ ''000'')) = Num (decimal_value (h @ ''000''))"
    unfolding js_Number_def using d v2 by simp
  then have "new_Date (js_Number (Some (h @ ''000''))) = DateMs (int (decimal_value (h @ ''000'')))"
    using v by (simp add: new_Date_def)
  then show ?thesis
    using assms(2) by (simp add: handshake_of_def tpl_def decimal_value_000)
qed

lemma apply_line_key [simp]: "l_publicKey (apply_line line c) = l_publicKey c"
  by (simp add: apply_line_def)

lemma apply_line_id [simp]: "l_id (apply_line line c) = l_id c"
  by (simp add: apply_line_def)

lemma apply_line_handshake [simp]:
  "latestHandshakeAt (apply_line line c) = handshake_of (line_handshake line)"
  by (simp add: apply_line_def)

lemma merge_line_keys: "map l_publicKey (merge_line cs line) = map l_publicKey cs"
  by (simp add: merge_line_alt update_first_map)

lemma merge_line_ids: "map l_id (merge_line cs line) = map l_id cs"
  by (simp add: merge_line_alt update_first_map)

lemma foldl_merge_line_keys: "map l_publicKey (foldl merge_line cs ls) = map l_publicKey cs"
  by (induction ls arbitrary: cs) (simp_all add: merge_line_keys)

lemma foldl_merge_line_ids: "map l_id (foldl merge_line cs ls) = map l_id cs"
  by (induction ls arbitrary: cs) (simp_all add: merge_line_ids)

lemma merge_line_unmatched:
  assumes "line_key line \<notin> set (map l_publicKey cs)"
  shows "merge_line cs line = cs"
proof -
  have "list_all (\<lambda>c. \<not> l_publicKey c = line_key line) cs"
    using assms by (force simp: list_all_iff)
  then show ?thesis
    unfolding merge_line_alt by (rule update_first_none)
qed

lemma foldl_merge_line_matched:
  "foldl merge_line cs (filter (\<lambda>l. line_key l \<in> set (map l_publicKey cs)) ls) =
   foldl merge_line cs ls"
proof (induction ls arbitrary: cs)
  case Nil
  show ?case by simp
next
  case (Cons l ls)
  show ?case
  proof (cases "line_key l \<in> set (map l_publicKey cs)")
    case True
    have "set (map l_publicKey (merge_line cs l)) = set (map l_publicKey cs)"
      by (simp only: merge_line_keys)
    then show ?thesis
      using True Cons.IH [of "merge_line cs l"] by simp
  next
    case False
    then show ?thesis
      using Cons.IH [of cs] merge_line_unmatched [OF False] by simp
  qed
qed

lemma merge_line_nth:
  assumes "j < length cs" and "first_key (map l_publicKey cs) j"
  shows "merge_line cs line ! j =
           (if l_publicKey (cs ! j) = line_key line then apply_line line (cs ! j) else cs ! j)"
proof -
  have "list_all (\<lambda>x. \<not> l_publicKey x = line_key line) (take j cs)"
    if "l_publicKey (cs ! j) = line_key line"
    using assms that by (auto simp: first_key_def list_all_iff take_map)
  then show ?thesis
    unfolding merge_line_alt using update_first_nth [OF assms(1)] by auto
qed

lemma matching_lines_snoc:
  "matching_lines pk (ls @ [l]) = matching_lines pk ls @ (if line_key l = pk then [l] else [])"
  by (simp add: matching_lines_def)

lemma foldl_merge_line_handshake:
  assumes "j < length cs" and "first_key (map l_publicKey cs) j"
  shows "latestHandshakeAt (foldl merge_line cs ls ! j) =
     (if matching_lines (l_publicKey (cs ! j)) ls = [] then latestHandshakeAt (cs ! j)
      else handshake_of (line_handshake (last (matching_lines (l_publicKey (cs ! j)) ls))))"
proof (induction ls rule: rev_induct)
  case Nil
  show ?case by (simp add: matching_lines_def)
next
  case (snoc l ls)
  let ?cs = "foldl merge_line cs ls"
  have k: "map l_publicKey ?cs = map l_publicKey cs"
    by (rule foldl_merge_line_keys)
  have len: "j < length ?cs"
    using assms(1) arg_cong [OF k, of length] by simp
  have f: "first_key (map l_publicKey ?cs) j"
    using assms(2) by (simp only: k)
  have kj: "l_publicKey (?cs ! j) = l_publicKey (cs ! j)"
    using arg_cong [OF k, of "\<lambda>xs. xs ! j"] len assms(1) by simp
  have step: "foldl merge_line cs (ls @ [l]) ! j =
      (if l_publicKey (cs ! j) = line_key l then apply_line l (?cs ! j) else ?cs ! j)"
    using merge_line_nth [OF len f, of l] kj by simp
  show ?case
  proof (cases "line_key l = l_publicKey (cs ! j)")
    case True
    then show ?thesis
      unfolding step by (simp add: matching_lines_snoc)
  next
    case False
    then have "l_publicKey (cs ! j) \<noteq> line_key l" by simp
    then show ?thesis
      unfolding step using snoc.IH False by (simp add: matching_lines_snoc)
  qed
qed

lemma list_entry_fields:
  "l_publicKey (list_entry e) = publicKey (snd e)" "latestHandshakeAt (list_entry e) = None"
  "l_id (list_entry e) = fst e"
  by (simp_all add: list_entry_def split_def)

lemma first_with_key_first_key:
  "j < length cs \<Longrightarrow> first_with_key cs j = first_key (map l_publicKey (map list_entry cs)) j"
  by (auto simp: first_with_key_def first_key_def list_all_iff take_map list_entry_fields)

lemma ex_dump_facts:
  "matching_lines ''ALICEPUB'' (dump_lines ex_dump) \<noteq> []"
  "line_handshake (last (matching_lines ''ALICEPUB'' (dump_lines ex_dump))) = Some ''1690000000''"
  "matching_lines ''BOBPUB'' (dump_lines ex_dump) \<noteq> []"
  "line_handshake (last (matching_lines ''BOBPUB'' (dump_lines ex_dump))) = Some ''0''"
  "first_with_key (clients ex_config) 0"
  "first_with_key (clients ex_config) 1"
  by code_simp+

lemma ex_epoch_seconds:
  "epoch_seconds ''1690000000''"
  "decimal_value ''1690000000'' = 1690000000"
  by (simp_all add: epoch_seconds_def all_digits_def is_digit_def decimal_value_def digit_value_def)

section \<open>The claims\<close>

text \<open>
  C1. The claim is that \<^verbatim>\<open>createClient\<close> with a non-empty name assigns the first free
  host suffix, inserts the new client and returns it. The code never does: in the
  scan, the branch taken when no stored client has the candidate suffix reads
  \<^verbatim>\<open>client.address\<close> of the undefined \<open>client\<close>, and when every candidate is taken the
  code after the loop reads \<open>client\<close> before its declaration. So every call ends in an
  error, for every state, name and answer of the daemon; with no client stored, and
  with clients at the suffixes 2 and 3, it is a TypeError after the three key
  commands, the collection unchanged.
\<close>

theorem C1_createClient_never_returns:
  "(\<exists>e. fst (createClient env out nm w) = Inl e) \<and>
   createClient ex_env ex_out ''carol'' ex_empty =
     (Inl TypeError,
      ex_empty\<lparr>trace := [Exec ''wg genkey'', Exec ''echo NEWPRIV | wg pubkey'', Exec ''wg genpsk'']\<rparr>) \<and>
   createClient ex_env ex_out ''carol'' ex_loaded =
     (Inl TypeError,
      ex_loaded\<lparr>trace := [Exec ''wg genkey'', Exec ''echo NEWPRIV | wg pubkey'', Exec ''wg genpsk'']\<rparr>)"
  using createClient_never_returns createClient_ex_empty createClient_ex_loaded by blast

text \<open>
  C2. When the persisted document cannot be read or parsed, the first \<^verbatim>\<open>getConfig\<close>
  (the host is configured, the default address block is \<open>a.b.c.d/n\<close>, the daemon's
  commands and the two writes succeed) returns a configuration whose server address
  is \<open>a.b.c.1\<close> and whose client collection is empty, and stores it. A later call,
  whatever the file system and the settings are by then, returns what the first call
  returned and does nothing more: no read, no command, no write.
\<close>

theorem C2_bootstrap_and_cache:
  assumes "configPromise w = None"
    and "WG_HOST env \<noteq> []" and "readFile_result out = None"
    and "exec_result out ''wg genkey'' = Inr priv"
    and "exec_result out (''echo '' @ priv @ '' | wg pubkey'') = Inr pub"
    and "WG_DEFAULT_ADDRESS env = a @ ''.'' @ b @ ''.'' @ c @ ''.'' @ d @ ''/'' @ n"
    and "\<forall>x \<in> set (a @ b @ c @ d). x \<noteq> CHR ''.'' \<and> x \<noteq> CHR ''/''"
    and "writeFile_result out ''wg0.json'' = None" and "writeFile_result out ''wg0.conf'' = None"
    and "exec_result out ''wg-quick up wg0'' = Inr up"
    and "exec_result out ''wg syncconf wg0 <(wg-quick strip wg0)'' = Inr sy"
  shows "\<exists>cfg w'. getConfig env out w = (Inr cfg, w') \<and>
           srv_address (server cfg) = a @ ''.'' @ b @ ''.'' @ c @ ''.'' @ ''1'' \<and>
           srv_privateKey (server cfg) = priv \<and> srv_publicKey (server cfg) = pub \<and>
           clients cfg = [] \<and>
           configPromise w' = Some (Inr cfg) \<and>
           getConfig env' out' w' = (Inr cfg, w') \<and>
           getConfig env' out' (snd (getConfig enva outa wa)) = getConfig enva outa wa"
proof -
  let ?boot = "bootstrapped priv pub (a @ ''.'' @ b @ ''.'' @ c @ ''.'' @ ''1'')"
  obtain t where l: "loadConfig env out w = (Inr ?boot, w\<lparr>trace := t\<rparr>)"
    using loadConfig_bootstrap [OF assms(2-11)] by blast
  let ?w' = "w\<lparr>trace := t, configPromise := Some (Inr ?boot)\<rparr>"
  have g: "getConfig env out w = (Inr ?boot, ?w')"
    by (simp add: getConfig_def assms(1) l)
  have c: "configPromise ?w' = Some (Inr ?boot)"
    by simp
  have again: "getConfig env' out' ?w' = (Inr ?boot, ?w')"
    using c by (rule getConfig_cached)
  have f: "srv_address (server ?boot) = a @ ''.'' @ b @ ''.'' @ c @ ''.'' @ ''1''"
    "srv_privateKey (server ?boot) = priv" "srv_publicKey (server ?boot) = pub" "clients ?boot = []"
    by (simp_all add: bootstrapped_def)
  show ?thesis
    using g c again f getConfig_twice [of env' out' enva outa wa] by blast
qed

theorem C2_witness:
  "\<exists>cfg w'. getConfig ex_env ex_out ex_fresh = (Inr cfg, w') \<and>
     srv_address (server cfg) = ''10.8.0.1'' \<and> clients cfg = [] \<and>
     getConfig ex_env (ex_out\<lparr>readFile_result := Some ex_config\<rparr>) w' = (Inr cfg, w')"
proof -
  have h: "configPromise ex_fresh = None" "WG_HOST ex_env \<noteq> []" "readFile_result ex_out = None"
    "exec_result ex_out ''wg genkey'' = Inr ''NEWPRIV''"
    "exec_result ex_out (''echo '' @ ''NEWPRIV'' @ '' | wg pubkey'') = Inr ''NEWPUB''"
    "WG_DEFAULT_ADDRESS ex_env = ''10'' @ ''.'' @ ''8'' @ ''.'' @ ''0'' @ ''.'' @ ''0'' @ ''/'' @ ''24''"
    "\<forall>x \<in> set (''10'' @ ''8'' @ ''0'' @ ''0''). x \<noteq> CHR ''.'' \<and> x \<noteq> CHR ''/''"
    "writeFile_result ex_out ''wg0.json'' = None" "writeFile_result ex_out ''wg0.conf'' = None"
    "exec_result ex_out ''wg-quick up wg0'' = Inr []"
    "exec_result ex_out ''wg syncconf wg0 <(wg-quick strip wg0)'' = Inr []"
    by (simp_all add: ex_fresh_def ex_env_def ex_out_def)
  show ?thesis
    using C2_bootstrap_and_cache [OF h, where env' = ex_env
        and out' = "ex_out\<lparr>readFile_result := Some ex_config\<rparr>"
        and enva = ex_env and outa = ex_out and wa = ex_fresh]
    by simp (elim exE conjE, intro exI conjI, assumption+)
qed

text \<open>
  C3. The daemon configuration that \<^verbatim>\<open>__saveConfig\<close> writes is the interface section
  followed by the peer sections of the enabled clients, in order: a client with
  \<open>enabled = false\<close> contributes no \<^verbatim>\<open>[Peer]\<close> section. \<^verbatim>\<open>getClients\<close> returns one
  entry per stored client, enabled or not, in the order of the stored collection, so
  that each stored id is the id of exactly one entry.
\<close>

theorem C3_disabled_omitted_but_listed:
  assumes "configPromise w = Some (Inr cfg)"
    and "writeFile_result out ''wg0.json'' = None" and "writeFile_result out ''wg0.conf'' = None"
    and "exec_result out ''wg show wg0 dump'' = Inr dump"
  shows "private_saveConfig env out cfg w =
           (Inr (), w\<lparr>trace := trace w @
              [WriteFile (WG_PATH env) ''wg0.json'' (Json cfg) 432,
               WriteFile (WG_PATH env) ''wg0.conf''
                 (Text (interface_text env cfg @
                        concat (map (\<lambda>(k, c). peer_text k c)
                                  (filter (\<lambda>(k, c). enabled c) (clients cfg))))) 384]\<rparr>) \<and>
         (\<exists>res. fst (getClients env out w) = Inr res \<and>
            map (\<lambda>e. (l_id e, l_enabled e)) res = map (\<lambda>(k, c). (k, enabled c)) (clients cfg) \<and>
            (distinct (map fst (clients cfg)) \<longrightarrow>
               (\<forall>k \<in> set (map fst (clients cfg)). length (filter (\<lambda>e. l_id e = k) res) = 1)))"
proof -
  let ?res = "foldl merge_line (map list_entry (clients cfg)) (dump_lines dump)"
  have p: "private_saveConfig env out cfg w =
           (Inr (), w\<lparr>trace := trace w @
              [WriteFile (WG_PATH env) ''wg0.json'' (Json cfg) 432,
               WriteFile (WG_PATH env) ''wg0.conf''
                 (Text (interface_text env cfg @
                        concat (map (\<lambda>(k, c). peer_text k c)
                                  (filter (\<lambda>(k, c). enabled c) (clients cfg))))) 384]\<rparr>)"
    by (simp only: private_saveConfig_ok [OF assms(2,3)] saveConfig_text_def saveConfig_loop_eq)
  have g: "fst (getClients env out w) = Inr ?res"
    by (simp add: getClients_loaded [OF assms(1)] assms(4))
  have m: "map (\<lambda>e. (l_id e, l_enabled e)) ?res = map (\<lambda>(k, c). (k, enabled c)) (clients cfg)"
    by (rule listing_ids)
  have ids: "map l_id ?res = map fst (clients cfg)"
    using arg_cong [OF m, of "map fst"] by (simp add: comp_def split_def)
  have c: "length (filter (\<lambda>e. l_id e = k) ?res) = 1"
    if "distinct (map fst (clients cfg))" and "k \<in> set (map fst (clients cfg))" for k
  proof -
    have "length (filter (\<lambda>e. l_id e = k) ?res) = length (filter (\<lambda>y. y = k) (map l_id ?res))"
      by (simp add: filter_map comp_def)
    also have "\<dots> = 1"
      unfolding ids using that by (rule distinct_filter_eq_length)
    finally show ?thesis .
  qed
  show ?thesis using p g m c by blast
qed

theorem C3_witness:
  "private_saveConfig ex_env ex_out ex_config ex_loaded =
     (Inr (), ex_loaded\<lparr>trace :=
        [WriteFile ''/etc/wireguard'' ''wg0.json'' (Json ex_config) 432,
         WriteFile ''/etc/wireguard'' ''wg0.conf''
           (Text (interface_text ex_env ex_config @ peer_text ''uuid-alice'' ex_alice)) 384]\<rparr>) \<and>
   (\<exists>res. fst (getClients ex_env ex_out ex_loaded) = Inr res \<and>
      map (\<lambda>e. (l_id e, l_enabled e)) res = [(''uuid-alice'', True), (''uuid-bob'', False)] \<and>
      length (filter (\<lambda>e. l_id e = ''uuid-bob'') res) = 1)"
proof -
  have a: "configPromise ex_loaded = Some (Inr ex_config)"
    by (simp add: ex_loaded_def)
  have b: "writeFile_result ex_out ''wg0.json'' = None" "writeFile_result ex_out ''wg0.conf'' = None"
    by (simp_all add: ex_out_def)
  have c: "exec_result ex_out ''wg show wg0 dump'' = Inr ex_dump"
    by (simp add: ex_out_def)
  have d: "distinct (map fst (clients ex_config))" "''uuid-bob'' \<in> set (map fst (clients ex_config))"
    by (simp_all add: ex_config_def)
  have e: "clients ex_config = [(''uuid-alice'', ex_alice), (''uuid-bob'', ex_bob)]"
    "enabled ex_alice" "\<not> enabled ex_bob" "WG_PATH ex_env = ''/etc/wireguard''"
    "trace ex_loaded = []"
    by (simp_all add: ex_defs)
  show ?thesis
    using C3_disabled_omitted_but_listed [OF a b c, of ex_env] d
    by (simp add: e) (elim exE conjE, intro exI conjI, assumption+)
qed

text \<open>
  C4. For a loaded state and a status dump, \<^verbatim>\<open>getClients\<close> gives the result that the
  dump lines whose public key is stored give alone (the other lines are ignored). A
  line goes to the first stored client with the line's public key. For such a client:
  with no line of its key its \<open>latestHandshakeAt\<close> stays null; otherwise the last line
  of its key decides, null when the handshake field is the literal \<^verbatim>\<open>0\<close>, and when
  the field is another time in epoch seconds, the date that many seconds (1000 times
  as many milliseconds) after the epoch.
\<close>

theorem C4_live_status_merge:
  assumes "configPromise w = Some (Inr cfg)"
    and "exec_result out ''wg show wg0 dump'' = Inr dump"
  shows "\<exists>res. fst (getClients env out w) = Inr res \<and>
     map l_id res = map fst (clients cfg) \<and>
     res = foldl merge_line (map list_entry (clients cfg))
             (filter (\<lambda>l. line_key l \<in> set (map (\<lambda>e. publicKey (snd e)) (clients cfg)))
                (dump_lines dump)) \<and>
     (\<forall>j < length (clients cfg). first_with_key (clients cfg) j \<longrightarrow>
        (matching_lines (publicKey (snd (clients cfg ! j))) (dump_lines dump) = [] \<longrightarrow>
           latestHandshakeAt (res ! j) = None) \<and>
        (\<forall>h. matching_lines (publicKey (snd (clients cfg ! j))) (dump_lines dump) \<noteq> [] \<and>
             line_handshake (last (matching_lines (publicKey (snd (clients cfg ! j))) (dump_lines dump)))
               = Some h \<longrightarrow>
             (h = ''0'' \<longrightarrow> latestHandshakeAt (res ! j) = None) \<and>
             (h \<noteq> ''0'' \<and> epoch_seconds h \<longrightarrow>
                latestHandshakeAt (res ! j) = Some (DateMs (1000 * int (decimal_value h))))))"
proof -
  let ?cs = "map list_entry (clients cfg)"
  let ?ls = "dump_lines dump"
  let ?res = "foldl merge_line ?cs ?ls"
  have keys: "map l_publicKey ?cs = map (\<lambda>e. publicKey (snd e)) (clients cfg)"
    by (simp add: list_entry_fields)
  have g: "fst (getClients env out w) = Inr ?res"
    by (simp add: getClients_loaded [OF assms(1)] assms(2))
  have ids: "map l_id ?res = map fst (clients cfg)"
    by (simp add: foldl_merge_line_ids list_entry_fields)
  have ign: "?res = foldl merge_line ?cs
      (filter (\<lambda>l. line_key l \<in> set (map (\<lambda>e. publicKey (snd e)) (clients cfg))) ?ls)"
    using foldl_merge_line_matched [of ?cs ?ls] by (simp only: keys)
  have hs: "latestHandshakeAt (?res ! j) =
      (if matching_lines (publicKey (snd (clients cfg ! j))) ?ls = [] then None
       else handshake_of (line_handshake (last (matching_lines (publicKey (snd (clients cfg ! j))) ?ls))))"
    if j: "j < length (clients cfg)" and f: "first_with_key (clients cfg) j" for j
  proof -
    have 1: "j < length ?cs" using j by simp
    have 2: "first_key (map l_publicKey ?cs) j"
      using f first_with_key_first_key [OF j] by simp
    show ?thesis
      using foldl_merge_line_handshake [OF 1 2, of ?ls] j by (simp add: list_entry_fields)
  qed
  have per: "(matching_lines (publicKey (snd (clients cfg ! j))) ?ls = [] \<longrightarrow>
           latestHandshakeAt (?res ! j) = None) \<and>
        (\<forall>h. matching_lines (publicKey (snd (clients cfg ! j))) ?ls \<noteq> [] \<and>
             line_handshake (last (matching_lines (publicKey (snd (clients cfg ! j))) ?ls)) = Some h \<longrightarrow>
             (h = ''0'' \<longrightarrow> latestHandshakeAt (?res ! j) = None) \<and>
             (h \<noteq> ''0'' \<and> epoch_seconds h \<longrightarrow>
                latestHandshakeAt (?res ! j) = Some (DateMs (1000 * int (decimal_value h)))))"
    if j: "j < length (clients cfg)" and f: "first_with_key (clients cfg) j" for j
    unfolding hs [OF j f]
    using handshake_of_zero handshake_of_epoch_seconds by auto
  show ?thesis
    using g ids ign per by blast
qed

theorem C4_witness:
  "\<exists>res. fst (getClients ex_env ex_out ex_loaded) = Inr res \<and>
     map l_id res = [''uuid-alice'', ''uuid-bob''] \<and>
     latestHandshakeAt (res ! 0) = Some (DateMs 1690000000000) \<and>
     latestHandshakeAt (res ! 1) = None"
proof -
  have a: "configPromise ex_loaded = Some (Inr ex_config)"
    by (simp add: ex_loaded_def)
  have d: "exec_result ex_out ''wg show wg0 dump'' = Inr ex_dump"
    by (simp add: ex_out_def)
  have c: "clients ex_config = [(''uuid-alice'', ex_alice), (''uuid-bob'', ex_bob)]"
    "publicKey ex_alice = ''ALICEPUB''" "publicKey ex_bob = ''BOBPUB''"
    by (simp_all add: ex_config_def ex_alice_def ex_bob_def)
  from C4_live_status_merge [OF a d, of ex_env]
  obtain res where r: "fst (getClients ex_env ex_out ex_loaded) = Inr res"
    and i: "map l_id res = map fst (clients ex_config)"
    and p: "\<forall>j < length (clients ex_config). first_with_key (clients ex_config) j \<longrightarrow>
        (matching_lines (publicKey (snd (clients ex_config ! j))) (dump_lines ex_dump) = [] \<longrightarrow>
           latestHandshakeAt (res ! j) = None) \<and>
        (\<forall>h. matching_lines (publicKey (snd (clients ex_config ! j))) (dump_lines ex_dump) \<noteq> [] \<and>
             line_handshake (last (matching_lines (publicKey (snd (clients ex_config ! j))) (dump_lines ex_dump)))
               = Some h \<longrightarrow>
             (h = ''0'' \<longrightarrow> latestHandshakeAt (res ! j) = None) \<and>
             (h \<noteq> ''0'' \<and> epoch_seconds h \<longrightarrow>
                latestHandshakeAt (res ! j) = Some (DateMs (1000 * int (decimal_value h)))))"
    by blast
  have 0: "latestHandshakeAt (res ! 0) = Some (DateMs 1690000000000)"
    using p [rule_format, of 0, THEN conjunct2, rule_format, of "''1690000000''"] ex_dump_facts
      ex_epoch_seconds
    by (simp add: c)
  have 1: "latestHandshakeAt (res ! 1) = None"
    using p [rule_format, of 1, THEN conjunct2, rule_format, of "''0''"] ex_dump_facts
    by (simp add: c)
  show ?thesis
    using r i 0 1 by (intro exI [where x = res]) (simp add: c)
qed

text \<open>
  C5. The claim is that an id with no stored client under it makes \<^verbatim>\<open>getClient\<close>, and
  the operations that start with it, fail with status 404. For the names a plain
  object inherits (\<^verbatim>\<open>constructor\<close>, \<^verbatim>\<open>toString\<close>, \<^verbatim>\<open>__proto__\<close>, ...) the lookup
  \<^verbatim>\<open>config.clients[clientId]\<close> finds the inherited built-in object, which is truthy.
  So for a loaded state and such a name with no stored client under it, \<^verbatim>\<open>getClient\<close>
  returns that object and no error, and \<^verbatim>\<open>enableClient\<close> assigns \<open>enabled\<close> and
  \<open>updatedAt\<close> to it and goes on to persist and sync. For every other id that is not
  stored the 404 holds (\<open>unknown_id_404\<close>).
\<close>

theorem C5_inherited_id_is_found:
  assumes "configPromise w = Some (Inr cfg)" and "map_of (clients cfg) clientId = None"
    and "clientId \<in> set Object_prototype_keys"
  shows "getClient env out clientId w = (Inr (Inherited clientId), w) \<and>
         enableClient env out clientId w =
           saveConfig env out
             (w\<lparr>trace := trace w @ [AssignBuiltin clientId ''enabled'',
                                     AssignBuiltin clientId ''updatedAt'']\<rparr>)"
proof -
  have p: "get_property (clients cfg) clientId = Some (Inherited clientId)"
    using assms(2,3) by (simp add: get_property_def)
  have g: "getClient env out clientId w = (Inr (Inherited clientId), w)"
    by (simp add: getClient_loaded [OF assms(1)] p)
  have e: "enableClient env out clientId w =
           saveConfig env out
             (w\<lparr>trace := trace w @ [AssignBuiltin clientId ''enabled'',
                                     AssignBuiltin clientId ''updatedAt'']\<rparr>)"
    by (simp add: enableClient_def bind_apply g assign_def)
  show ?thesis using g e by blast
qed

theorem C5_witness:
  "map_of (clients ex_config) ''constructor'' = None \<and>
   getClient ex_env ex_out ''constructor'' ex_loaded = (Inr (Inherited ''constructor''), ex_loaded) \<and>
   enableClient ex_env ex_out ''constructor'' ex_loaded =
     (Inr (),
      ex_loaded\<lparr>trace :=
        [AssignBuiltin ''constructor'' ''enabled'',
         AssignBuiltin ''constructor'' ''updatedAt'',
         WriteFile ''/etc/wireguard'' ''wg0.json'' (Json ex_config) 432,
         WriteFile ''/etc/wireguard'' ''wg0.conf'' (Text (saveConfig_text ex_env ex_config)) 384,
         Exec ''wg syncconf wg0 <(wg-quick strip wg0)'']\<rparr>)"
proof -
  have a: "configPromise ex_loaded = Some (Inr ex_config)"
    by (simp add: ex_loaded_def)
  have m: "map_of (clients ex_config) ''constructor'' = None"
    by (simp add: ex_config_def)
  have k: "''constructor'' \<in> set Object_prototype_keys"
    by (simp add: Object_prototype_keys_def)
  have w: "writeFile_result ex_out ''wg0.json'' = None" "writeFile_result ex_out ''wg0.conf'' = None"
    by (simp_all add: ex_out_def)
  let ?w = "ex_loaded\<lparr>trace := trace ex_loaded @ [AssignBuiltin ''constructor'' ''enabled'',
                                     AssignBuiltin ''constructor'' ''updatedAt'']\<rparr>"
  have l: "configPromise ?w = Some (Inr ex_config)"
    by (simp add: ex_loaded_def)
  have s: "saveConfig ex_env ex_out ?w =
     (Inr (),
      ex_loaded\<lparr>trace :=
        [AssignBuiltin ''constructor'' ''enabled'',
         AssignBuiltin ''constructor'' ''updatedAt'',
         WriteFile ''/etc/wireguard'' ''wg0.json'' (Json ex_config) 432,
         WriteFile ''/etc/wireguard'' ''wg0.conf'' (Text (saveConfig_text ex_env ex_config)) 384,
         Exec ''wg syncconf wg0 <(wg-quick strip wg0)'']\<rparr>)"
    unfolding saveConfig_loaded [OF l w]
    by (simp add: ex_loaded_def ex_out_def ex_env_def)
  show ?thesis
    using C5_inherited_id_is_found [OF a m k, of ex_env ex_out] m s by simp
qed

text \<open>
  C6. For a loaded state and the id of a stored client, \<^verbatim>\<open>updateClientAddress\<close> with an
  address the validator rejects fails with a \<open>ServerError\<close> of status 400 and leaves
  the instance as it was. With an address the validator accepts, the stored client's
  address becomes the given one and its \<open>updatedAt\<close> the current time, every other
  client, the order of the collection and the server record stay as they were, and
  when the two writes and the sync succeed the call returns after persisting the new
  configuration.
\<close>

theorem C6_updateClientAddress:
  assumes "configPromise w = Some (Inr cfg)" and "map_of (clients cfg) clientId = Some c"
  shows "(\<not> isValidIPv4 env addr \<longrightarrow>
            updateClientAddress env out clientId addr w =
              (Inl (ServerError (''Invalid Address: '' @ addr) 400), w) \<and>
            statusCode (ServerError (''Invalid Address: '' @ addr) 400) = Some 400) \<and>
         (isValidIPv4 env addr \<longrightarrow>
            (\<exists>cfg'. configPromise (snd (updateClientAddress env out clientId addr w)) = Some (Inr cfg') \<and>
               map_of (clients cfg') clientId = Some (c\<lparr>address := addr, updatedAt := Date_now out 0\<rparr>) \<and>
               (\<forall>k. k \<noteq> clientId \<longrightarrow> map_of (clients cfg') k = map_of (clients cfg) k) \<and>
               map fst (clients cfg') = map fst (clients cfg) \<and>
               server cfg' = server cfg \<and>
               (writeFile_result out ''wg0.json'' = None \<and> writeFile_result out ''wg0.conf'' = None \<and>
                exec_result out ''wg syncconf wg0 <(wg-quick strip wg0)'' = Inr sy \<longrightarrow>
                updateClientAddress env out clientId addr w =
                  (Inr (), w\<lparr>configPromise := Some (Inr cfg'),
                             trace := trace w @
                               [WriteFile (WG_PATH env) ''wg0.json'' (Json cfg') 432,
                                WriteFile (WG_PATH env) ''wg0.conf'' (Text (saveConfig_text env cfg')) 384,
                                Exec ''wg syncconf wg0 <(wg-quick strip wg0)'']\<rparr>))))"
proof -
  let ?f = "\<lambda>c. c\<lparr>address := addr, updatedAt := Date_now out 0\<rparr>"
  let ?cfg = "cfg\<lparr>clients := AList.map_entry clientId ?f (clients cfg)\<rparr>"
  let ?w = "w\<lparr>configPromise := Some (Inr ?cfg)\<rparr>"
  note u = updateClientAddress_own [OF assms, of env out addr]
  have inv: "updateClientAddress env out clientId addr w =
              (Inl (ServerError (''Invalid Address: '' @ addr) 400), w)"
    if "\<not> isValidIPv4 env addr"
    using u that by simp
  have val: "updateClientAddress env out clientId addr w = saveConfig env out ?w"
    if "isValidIPv4 env addr"
    using u that by simp
  have l: "configPromise ?w = Some (Inr ?cfg)"
    by simp
  have c1: "configPromise (snd (saveConfig env out ?w)) = Some (Inr ?cfg)"
    using l by (rule saveConfig_configPromise)
  have c2: "map_of (clients ?cfg) clientId = Some (?f c)"
    by (simp add: AList.map_of_map_entry assms(2))
  have c3: "map_of (clients ?cfg) k = map_of (clients cfg) k" if "k \<noteq> clientId" for k
    using that by (simp add: AList.map_of_map_entry)
  have c4: "map fst (clients ?cfg) = map fst (clients cfg)"
    by (simp add: map_fst_map_entry)
  have c5: "server ?cfg = server cfg"
    by simp
  have c6: "saveConfig env out ?w =
      (Inr (), w\<lparr>configPromise := Some (Inr ?cfg),
                 trace := trace w @
                   [WriteFile (WG_PATH env) ''wg0.json'' (Json ?cfg) 432,
                    WriteFile (WG_PATH env) ''wg0.conf'' (Text (saveConfig_text env ?cfg)) 384,
                    Exec ''wg syncconf wg0 <(wg-quick strip wg0)'']\<rparr>)"
    if "writeFile_result out ''wg0.json'' = None" "writeFile_result out ''wg0.conf'' = None"
      "exec_result out ''wg syncconf wg0 <(wg-quick strip wg0)'' = Inr sy"
    using that by (simp add: saveConfig_loaded [OF l])
  have valid: "\<exists>cfg'. configPromise (snd (updateClientAddress env out clientId addr w)) = Some (Inr cfg') \<and>
               map_of (clients cfg') clientId = Some (c\<lparr>address := addr, updatedAt := Date_now out 0\<rparr>) \<and>
               (\<forall>k. k \<noteq> clientId \<longrightarrow> map_of (clients cfg') k = map_of (clients cfg) k) \<and>
               map fst (clients cfg') = map fst (clients cfg) \<and>
               server cfg' = server cfg \<and>
               (writeFile_result out ''wg0.json'' = None \<and> writeFile_result out ''wg0.conf'' = None \<and>
                exec_result out ''wg syncconf wg0 <(wg-quick strip wg0)'' = Inr sy \<longrightarrow>
                updateClientAddress env out clientId addr w =
                  (Inr (), w\<lparr>configPromise := Some (Inr cfg'),
                             trace := trace w @
                               [WriteFile (WG_PATH env) ''wg0.json'' (Json cfg') 432,
                                WriteFile (WG_PATH env) ''wg0.conf'' (Text (saveConfig_text env cfg')) 384,
                                Exec ''wg syncconf wg0 <(wg-quick strip wg0)'']\<rparr>))"
    if v: "isValidIPv4 env addr"
    apply (rule exI [where x = ?cfg])
    unfolding val [OF v]
    using c1 c2 c3 c4 c5 c6 by blast
  show ?thesis
    using inv valid by simp
qed

theorem C6_witness:
  "\<not> isValidIPv4 ex_env ''999.1.1.1'' \<and>
   updateClientAddress ex_env ex_out ''uuid-alice'' ''999.1.1.1'' ex_loaded =
     (Inl (ServerError ''Invalid Address: 999.1.1.1'' 400), ex_loaded) \<and>
   isValidIPv4 ex_env ''10.8.0.5'' \<and>
   (\<exists>cfg'. updateClientAddress ex_env ex_out ''uuid-alice'' ''10.8.0.5'' ex_loaded =
             (Inr (), \<lparr>configPromise = Some (Inr cfg'),
                       trace = [WriteFile ''/etc/wireguard'' ''wg0.json'' (Json cfg') 432,
                                WriteFile ''/etc/wireguard'' ''wg0.conf'' (Text (saveConfig_text ex_env cfg')) 384,
                                Exec ''wg syncconf wg0 <(wg-quick strip wg0)'']\<rparr>) \<and>
      map_of (clients cfg') ''uuid-alice'' =
        Some (ex_alice\<lparr>address := ''10.8.0.5'', updatedAt := 1700000000000\<rparr>) \<and>
      map_of (clients cfg') ''uuid-bob'' = Some ex_bob)"
proof -
  have a: "configPromise ex_loaded = Some (Inr ex_config)"
    by (simp add: ex_loaded_def)
  have m: "map_of (clients ex_config) ''uuid-alice'' = Some ex_alice"
    by (simp add: ex_config_def)
  have b: "map_of (clients ex_config) ''uuid-bob'' = Some ex_bob"
    by (simp add: ex_config_def)
  have v: "\<not> isValidIPv4 ex_env ''999.1.1.1''" "isValidIPv4 ex_env ''10.8.0.5''"
    by (simp_all add: ex_env_def ex_validity)
  have o: "writeFile_result ex_out ''wg0.json'' = None" "writeFile_result ex_out ''wg0.conf'' = None"
    "exec_result ex_out ''wg syncconf wg0 <(wg-quick strip wg0)'' = Inr []"
    "Date_now ex_out 0 = 1700000000000" "WG_PATH ex_env = ''/etc/wireguard''"
    "trace ex_loaded = []"
    by (simp_all add: ex_out_def ex_env_def ex_loaded_def)
  have bad: "updateClientAddress ex_env ex_out ''uuid-alice'' ''999.1.1.1'' ex_loaded =
     (Inl (ServerError ''Invalid Address: 999.1.1.1'' 400), ex_loaded)"
    using C6_updateClientAddress [OF a m, of ex_env "''999.1.1.1''" ex_out] v(1) by simp
  have good: "\<exists>cfg'. updateClientAddress ex_env ex_out ''uuid-alice'' ''10.8.0.5'' ex_loaded =
             (Inr (), \<lparr>configPromise = Some (Inr cfg'),
                       trace = [WriteFile ''/etc/wireguard'' ''wg0.json'' (Json cfg') 432,
                                WriteFile ''/etc/wireguard'' ''wg0.conf'' (Text (saveConfig_text ex_env cfg')) 384,
                                Exec ''wg syncconf wg0 <(wg-quick strip wg0)'']\<rparr>) \<and>
      map_of (clients cfg') ''uuid-alice'' =
        Some (ex_alice\<lparr>address := ''10.8.0.5'', updatedAt := 1700000000000\<rparr>) \<and>
      map_of (clients cfg') ''uuid-bob'' = Some ex_bob"
  proof -
    from C6_updateClientAddress [OF a m, of ex_env "''10.8.0.5''" ex_out "[]"] v(2) o
    obtain cfg' where
      1: "map_of (clients cfg') ''uuid-alice'' = Some (ex_alice\<lparr>address := ''10.8.0.5'', updatedAt := 1700000000000\<rparr>)"
      and 2: "\<forall>k. k \<noteq> ''uuid-alice'' \<longrightarrow> map_of (clients cfg') k = map_of (clients ex_config) k"
      and 3: "updateClientAddress ex_env ex_out ''uuid-alice'' ''10.8.0.5'' ex_loaded =
                  (Inr (), ex_loaded\<lparr>configPromise := Some (Inr cfg'),
                             trace := 
                               [WriteFile ''/etc/wireguard'' ''wg0.json'' (Json cfg') 432,
                                WriteFile ''/etc/wireguard'' ''wg0.conf'' (Text (saveConfig_text ex_env cfg')) 384,
                                Exec ''wg syncconf wg0 <(wg-quick strip wg0)'']\<rparr>)"
      by auto
    have 4: "map_of (clients cfg') ''uuid-bob'' = Some ex_bob"
      using 2 b by simp
    show ?thesis
      using 1 3 4 by (intro exI [where x = cfg']) (simp add: ex_loaded_def)
  qed
  show ?thesis using v bad good by blast
qed

text \<open>
  C7. \<^verbatim>\<open>createClient\<close> with an empty name fails before anything else happens: the
  instance, its configuration and the trace are unchanged. The error is a plain
  \<open>Error\<close> with the message \<^verbatim>\<open>Missing: Name\<close>; it carries no status code, unlike the
  \<open>ServerError\<close> of the lookup (404) and of the address validation (400).
\<close>

theorem C7_empty_name_plain_error:
  "createClient env out [] w = (Inl (Error ''Missing: Name''), w) \<and>
   statusCode (Error ''Missing: Name'') = None \<and>
   message (Error ''Missing: Name'') = Some ''Missing: Name''"
  by (simp add: createClient_def throw_apply)

text \<open>
  C8. The claim is that the \<^verbatim>\<open>Address\<close> line of the interface section ends in the
  subnet width of the default address block, never in a missing or undefined
  component, and likewise in the client configuration. The bootstrap computes the
  width (\<open>subnetIp\<close>) and drops it: the server record it builds has no \<open>cidrSubnet\<close>,
  and \<^verbatim>\<open>__saveConfig\<close> interpolates the absent property. So for every bootstrapped
  configuration the line is \<^verbatim>\<open>Address = <address>/undefined\<close>, as the first
  \<^verbatim>\<open>getConfig\<close> of the example writes it; and a client without a \<open>cidrSubnet\<close>
  property (no operation sets one) gets the same in its configuration.
\<close>

theorem C8_subnet_component_is_undefined:
  "js_includes (saveConfig_text env (bootstrapped priv pub addr))
     (NL @ ''Address = '' @ addr @ ''/undefined'' @ NL) \<and>
   js_includes (clientConfiguration_text env out cfg (Own (c\<lparr>cidrSubnet := None\<rparr>)))
     (NL @ ''Address = '' @ address c @ ''/undefined'' @ NL) \<and>
   fst (getConfig ex_env ex_out ex_fresh) = Inr (bootstrapped ''NEWPRIV'' ''NEWPUB'' ''10.8.0.1'') \<and>
   WriteFile ''/etc/wireguard'' ''wg0.conf''
     (Text (js_join NL
       [[],
        ''# Note: Do not edit this file directly.'',
        ''# Your changes will be overwritten!'',
        [],
        ''# Server'',
        ''[Interface]'',
        ''PrivateKey = NEWPRIV'',
        ''Address = 10.8.0.1/undefined'',
        ''ListenPort = 51820'',
        ''PreUp = '',
        ''PostUp = '',
        ''PreDown = '',
        ''PostDown = '',
        []])) 384
     \<in> set (trace (snd (getConfig ex_env ex_out ex_fresh)))"
proof -
  have a: "js_includes (saveConfig_text env (bootstrapped priv pub addr))
     (NL @ ''Address = '' @ addr @ ''/undefined'' @ NL)"
    using saveConfig_text_address [of env "bootstrapped priv pub addr"]
    by (simp add: bootstrapped_def tpl_def)
  have b: "js_includes (clientConfiguration_text env out cfg (Own (c\<lparr>cidrSubnet := None\<rparr>)))
     (NL @ ''Address = '' @ address c @ ''/undefined'' @ NL)"
    using clientConfiguration_text_address [of env out cfg "c\<lparr>cidrSubnet := None\<rparr>"]
    by (simp add: tpl_def)
  have c: "fst (getConfig ex_env ex_out ex_fresh) = Inr (bootstrapped ''NEWPRIV'' ''NEWPUB'' ''10.8.0.1'')"
    by (simp add: getConfig_ex_fresh)
  have d: "WriteFile ''/etc/wireguard'' ''wg0.conf''
     (Text (saveConfig_text ex_env (bootstrapped ''NEWPRIV'' ''NEWPUB'' ''10.8.0.1''))) 384
     \<in> set (trace (snd (getConfig ex_env ex_out ex_fresh)))"
    by (simp add: getConfig_ex_fresh)
  show ?thesis
    using a b c d unfolding saveConfig_text_ex_fresh by blast
qed

text \<open>
  C9. For a loaded state and the id of a stored client, where the values rendered
  (the client's keys, address and subnet, the server's public key and the settings)
  hold no line break, the text \<^verbatim>\<open>getClientConfiguration\<close> returns has exactly one line
  \<^verbatim>\<open>[Interface]\<close> and exactly one line \<^verbatim>\<open>[Peer]\<close>. Its third line is
  \<^verbatim>\<open>PrivateKey = \<close> followed by a non-empty value: the stored private key, or the
  literal \<^verbatim>\<open>REPLACE_ME\<close> when the client has no private key (or an empty one).
\<close>

theorem C9_client_configuration_sections:
  assumes "configPromise w = Some (Inr cfg)" and "map_of (clients cfg) clientId = Some c"
    and "single_line_settings env" and "single_line_client c"
    and "single_line (srv_publicKey (server cfg))"
  shows "\<exists>conf v. getClientConfiguration env out clientId w = (Inr conf, w) \<and>
           count_list (js_split (CHR 0x0A) conf) ''[Interface]'' = 1 \<and>
           count_list (js_split (CHR 0x0A) conf) ''[Peer]'' = 1 \<and>
           nth_opt (js_split (CHR 0x0A) conf) 2 = Some (''PrivateKey = '' @ v) \<and>
           v \<noteq> [] \<and>
           (if truthy (privateKey c) then privateKey c = Some v else v = ''REPLACE_ME'')"
proof -
  let ?text = "clientConfiguration_text env out cfg (Own c)"
  let ?lines = "clientConfiguration_lines env cfg c"
  let ?v = "if truthy (privateKey c) then tpl (privateKey c) else ''REPLACE_ME''"
  have ne: "?lines \<noteq> []"
    by (simp add: clientConfiguration_lines_def)
  have sp: "js_split (CHR 0x0A) ?text = ?lines"
    unfolding clientConfiguration_text_lines
    using ne clientConfiguration_lines_single [OF assms(3,4,5)] by (rule js_split_join)
  have r: "getClientConfiguration env out clientId w = (Inr ?text, w)"
    using assms(1,2) by (rule getClientConfiguration_own)
  have v1: "?v \<noteq> []"
    by (cases "privateKey c") (auto simp: truthy_def tpl_def)
  have v2: "if truthy (privateKey c) then privateKey c = Some ?v else ?v = ''REPLACE_ME''"
    by (cases "privateKey c") (auto simp: truthy_def tpl_def)
  show ?thesis
    apply (rule exI [where x = ?text])
    apply (rule exI [where x = ?v])
    unfolding sp
    using r clientConfiguration_lines_sections [of env cfg c]
      clientConfiguration_lines_key [of env cfg c] v1 v2
    by (intro conjI)
qed

theorem C9_witness:
  "\<exists>conf. getClientConfiguration ex_env ex_out ''uuid-bob'' ex_loaded = (Inr conf, ex_loaded) \<and>
     count_list (js_split (CHR 0x0A) conf) ''[Interface]'' = 1 \<and>
     count_list (js_split (CHR 0x0A) conf) ''[Peer]'' = 1 \<and>
     nth_opt (js_split (CHR 0x0A) conf) 2 = Some ''PrivateKey = REPLACE_ME''"
proof -
  have a: "configPromise ex_loaded = Some (Inr ex_config)"
    by (simp add: ex_loaded_def)
  have m: "map_of (clients ex_config) ''uuid-bob'' = Some ex_bob"
    by (simp add: ex_config_def)
  have s: "single_line_settings ex_env" "single_line_client ex_bob"
    "single_line (srv_publicKey (server ex_config))"
    by (simp_all add: single_line_settings_def single_line_client_def single_line_def ex_env_def
        ex_bob_def ex_config_def tpl_def)
  have n: "\<not> truthy (privateKey ex_bob)"
    by (simp add: ex_bob_def truthy_def)
  from C9_client_configuration_sections [OF a m s, of ex_out]
  obtain conf v where
    "getClientConfiguration ex_env ex_out ''uuid-bob'' ex_loaded = (Inr conf, ex_loaded)"
    "count_list (js_split (CHR 0x0A) conf) ''[Interface]'' = 1"
    "count_list (js_split (CHR 0x0A) conf) ''[Peer]'' = 1"
    "nth_opt (js_split (CHR 0x0A) conf) 2 = Some (''PrivateKey = '' @ v)"
    "v = ''REPLACE_ME''"
    using n by auto
  then show ?thesis
    by (intro exI [where x = conf]) simp
qed

text \<open>
  C10. Two loaded states whose stored clients differ only in the values of their
  private keys and pre-shared keys (not in whether a key is present), given the same
  status dump, get the same result from \<^verbatim>\<open>getClients\<close>: the entries carry no key
  material but the public key, and \<open>downloadableConfig\<close> says whether a private key is
  stored.
\<close>

theorem C10_listing_hides_key_values:
  assumes "configPromise w1 = Some (Inr cfg1)" and "configPromise w2 = Some (Inr cfg2)"
    and "redacted cfg1 = redacted cfg2"
  shows "fst (getClients env out w1) = fst (getClients env out w2) \<and>
         (\<forall>res. fst (getClients env out w1) = Inr res \<longrightarrow>
            map downloadableConfig res = map (\<lambda>(k, c). privateKey c \<noteq> None) (clients cfg1) \<and>
            map l_publicKey res = map (\<lambda>(k, c). publicKey c) (clients cfg1))"
proof -
  have same: "map list_entry (clients cfg1) = map list_entry (clients cfg2)"
    using assms(3) map_list_entry_redacted by metis
  have one: "fst (getClients env out w1) = fst (getClients env out w2)"
    by (simp only: getClients_loaded [OF assms(1)] getClients_loaded [OF assms(2)] same fst_conv)
  have two: "map downloadableConfig res = map (\<lambda>(k, c). privateKey c \<noteq> None) (clients cfg1) \<and>
             map l_publicKey res = map (\<lambda>(k, c). publicKey c) (clients cfg1)"
    if r: "fst (getClients env out w1) = Inr res" for res
  proof -
    obtain dump where res: "res = foldl merge_line (map list_entry (clients cfg1)) (dump_lines dump)"
      using r by (auto simp: getClients_loaded [OF assms(1)] split: sum.splits)
    have st: "map (\<lambda>e. (l_id e, l_name e, l_enabled e, l_address e, l_publicKey e, l_createdAt e, l_updatedAt e, l_allowedIPs e, downloadableConfig e)) res
      = map (\<lambda>e. (l_id e, l_name e, l_enabled e, l_address e, l_publicKey e, l_createdAt e, l_updatedAt e, l_allowedIPs e, downloadableConfig e)) (map list_entry (clients cfg1))"
      unfolding res by (rule foldl_merge_line_stored)
    have a: "map downloadableConfig res = map downloadableConfig (map list_entry (clients cfg1))"
      using arg_cong [OF st, of "map (\<lambda>t. snd (snd (snd (snd (snd (snd (snd (snd t))))))))"]
      by (simp add: comp_def)
    have b: "map l_publicKey res = map l_publicKey (map list_entry (clients cfg1))"
      using arg_cong [OF st, of "map (\<lambda>t. fst (snd (snd (snd (snd t)))))"]
      by (simp add: comp_def)
    show ?thesis
      using a b by (simp add: list_entry_def split_def comp_def)
  qed
  show ?thesis using one two by blast
qed

theorem C10_witness:
  "redacted ex_config = redacted ex_config_rekeyed \<and>
   clients ex_config \<noteq> clients ex_config_rekeyed \<and>
   fst (getClients ex_env ex_out ex_loaded) =
   fst (getClients ex_env ex_out (ex_loaded\<lparr>configPromise := Some (Inr ex_config_rekeyed)\<rparr>))"
proof -
  have r: "redacted ex_config = redacted ex_config_rekeyed"
    by (simp add: redacted_def redact_def ex_defs)
  have d: "clients ex_config \<noteq> clients ex_config_rekeyed"
    by (simp add: ex_defs)
  have a: "configPromise ex_loaded = Some (Inr ex_config)"
    by (simp add: ex_loaded_def)
  have b: "configPromise (ex_loaded\<lparr>configPromise := Some (Inr ex_config_rekeyed)\<rparr>) = Some (Inr ex_config_rekeyed)"
    by simp
  show ?thesis
    using C10_listing_hides_key_values [OF a b r, of ex_env ex_out] r d by blast
qed

end
